theory Spec2Isabelle
  imports Main "HOL-Library.Signed_Division" "HOL-Library.Monad_Syntax"
    "HOL-Library.List_Lexorder" "HOL-Library.Char_ord"
begin

section \<open>The dock panel of KSmoothDock: data model\<close>

text \<open>
  The development embeds \<^verbatim>\<open>src/view/dock_panel.cc\<close> and \<^verbatim>\<open>dock_panel.h\<close>.

  \<^item> A C++ \<^verbatim>\<open>int\<close> is a 32-bit signed integer: a mathematical \<^typ>\<open>int\<close> in the
    range of \<open>int32\<close>. Signed overflow is undefined in C++: every sum, difference and
    product the code forms is checked, and a result outside the range is \<open>None\<close>.
  \<^item> The C++ operator \<^verbatim>\<open>/\<close> on \<^verbatim>\<open>int\<close> truncates towards zero: it is \<open>sdiv\<close>,
    never \<open>div\<close>; a zero divisor is \<open>None\<close>.
  \<^item> Loop counters and indices stay between \<open>-1\<close> and the number of items and are
    not checked.
  \<^item> A member \<^verbatim>\<open>name_\<close> of \<^verbatim>\<open>DockPanel\<close> is the field \<open>name\<close> of the record
    \<open>DockPanel\<close>; a member \<^verbatim>\<open>name_\<close> of a dock item is the field \<open>it_name\<close>.
  \<^item> A \<^verbatim>\<open>void\<close> member function that mutates the panel is a function from the panel
    to the new panel. Where the C++ has undefined behaviour (overflow, division by zero,
    an element access outside the vector) the function returns \<open>None\<close>.
\<close>

datatype PanelPosition = Top | Bottom | Left | Right

datatype Orientation = Horizontal | Vertical

datatype PanelVisibility =
  AlwaysVisible | AutoHide | WindowsCanCover | WindowsCanCover_Quiet | WindowsGoBelow

text \<open>The item classes that \<^verbatim>\<open>dock_panel.cc\<close> constructs.\<close>

datatype ItemKind = ApplicationMenu | DesktopSelector | Program | Separator | Clock

record TaskInfo =
  wId :: nat
  program :: string
  command :: string

text \<open>
  The class \<^verbatim>\<open>DockItem\<close> is declared in \<^verbatim>\<open>dock_item.h\<close>, which is not among the
  sources. The geometry and animation members below are the ones \<^verbatim>\<open>dock_panel.cc\<close>
  reads and writes; \<open>it_minSize\<close> and \<open>it_maxSize\<close> are the \<^verbatim>\<open>minSize_\<close> and
  \<^verbatim>\<open>maxSize_\<close> every constructor call passes; \<open>it_kind\<close>, \<open>it_label\<close>, \<open>it_command\<close>,
  \<open>it_taskCommand\<close>, \<open>it_pinned\<close> and \<open>it_tasks\<close> (the window ids of the tasks the item
  owns) are the constructor arguments of \<^verbatim>\<open>Program\<close> and the spec's "owns
  zero-or-more tasks".
\<close>

record DockItem =
  it_kind :: ItemKind
  it_label :: string
  it_command :: string
  it_taskCommand :: string
  it_pinned :: bool
  it_tasks :: "nat list"
  it_minSize :: int
  it_maxSize :: int
  it_size :: int
  it_left :: int
  it_top :: int
  it_minCenter :: int
  it_startSize :: int
  it_startLeft :: int
  it_startTop :: int
  it_endSize :: int
  it_endLeft :: int
  it_endTop :: int
  it_currentStep :: int
  it_numSteps :: int

record DockPanel =
  position :: PanelPosition
  orientation :: Orientation
  visibility :: PanelVisibility
  showApplicationMenu :: bool
  showPager :: bool
  minSize :: int
  maxSize :: int
  itemSpacing :: int
  minX :: int
  minY :: int
  minWidth :: int
  maxWidth :: int
  minHeight :: int
  maxHeight :: int
  parabolicMaxX :: int
  screenX :: int
  screenY :: int
  screenWidth :: int
  screenHeight :: int
  numAnimationSteps :: int
  animationSpeed :: int
  items :: "DockItem list"
  isMinimized :: bool
  isResizing :: bool
  isEntering :: bool
  isLeaving :: bool
  isAnimationActive :: bool
  currentAnimationStep :: int
  backgroundWidth :: int
  startBackgroundWidth :: int
  endBackgroundWidth :: int
  backgroundHeight :: int
  startBackgroundHeight :: int
  endBackgroundHeight :: int
  mouseX :: int
  mouseY :: int
  widgetX :: int
  widgetY :: int
  widgetWidth :: int
  widgetHeight :: int
  animationTimer :: "int option"
  tooltip :: "nat option"
  spacingOfConfig :: int
  numberOfDesktops :: nat

text \<open>
  The last six groups of fields are the environment of the panel:
  \<open>screenX\<close> \<open>\<dots>\<close> \<open>screenHeight\<close> are \<^verbatim>\<open>screenGeometry_\<close>;
  \<open>widgetX\<close> \<open>\<dots>\<close> \<open>widgetHeight\<close> are \<^verbatim>\<open>x()\<close>, \<^verbatim>\<open>y()\<close>, \<^verbatim>\<open>width()\<close> and
  \<^verbatim>\<open>height()\<close> of the \<^verbatim>\<open>QWidget\<close>;
  \<open>animationTimer\<close> is \<open>Some interval\<close> while \<^verbatim>\<open>animationTimer_\<close> runs;
  \<open>tooltip\<close> is \<open>Some i\<close> while \<^verbatim>\<open>tooltip_\<close> shows the label of item \<open>i\<close>;
  \<open>spacingOfConfig\<close> is the value of \<^verbatim>\<open>static_cast<int>(minSize_ * spacingFactor_)\<close>, a
  floating-point product that is taken as given;
  \<open>numberOfDesktops\<close> is \<^verbatim>\<open>KX11Extras::numberOfDesktops()\<close>.
\<close>

definition kAutoHideSize :: int where
  "kAutoHideSize = 1"

definition isHorizontal :: "DockPanel \<Rightarrow> bool" where
  "isHorizontal p = (orientation p = Horizontal)"

definition autoHide :: "DockPanel \<Rightarrow> bool" where
  "autoHide p = (visibility p = AutoHide)"

definition itemCount :: "DockPanel \<Rightarrow> int" where
  "itemCount p = int (length (items p))"

section \<open>32-bit arithmetic\<close>

definition int32 :: "int \<Rightarrow> bool" where
  "int32 v = (- 2147483648 \<le> v \<and> v \<le> 2147483647)"

definition add32 :: "int \<Rightarrow> int \<Rightarrow> int option" where
  "add32 a b = (if int32 (a + b) then Some (a + b) else None)"

definition sub32 :: "int \<Rightarrow> int \<Rightarrow> int option" where
  "sub32 a b = (if int32 (a - b) then Some (a - b) else None)"

definition mul32 :: "int \<Rightarrow> int \<Rightarrow> int option" where
  "mul32 a b = (if int32 (a * b) then Some (a * b) else None)"

definition div32 :: "int \<Rightarrow> int \<Rightarrow> int option" where
  "div32 a b = (if b = 0 \<or> \<not> int32 (a sdiv b) then None else Some (a sdiv b))"

text \<open>\<^verbatim>\<open>std::abs\<close> on \<^verbatim>\<open>int\<close>: undefined on the least value, whose negation overflows.\<close>

definition abs32 :: "int \<Rightarrow> int option" where
  "abs32 a = (if int32 \<bar>a\<bar> then Some \<bar>a\<bar> else None)"

section \<open>The parabolic size function\<close>

text \<open>
  \<^verbatim>\<open>int DockPanel::parabolic(int x)\<close>: the products \<^verbatim>\<open>x * x\<close>,
  \<^verbatim>\<open>x * x * (maxSize_ - minSize_)\<close> and \<^verbatim>\<open>parabolicMaxX_ * parabolicMaxX_\<close>, the quotient and
  the difference, in 32 bits.
\<close>

definition parabolic :: "DockPanel \<Rightarrow> int \<Rightarrow> int option" where
  "parabolic p x =
     (if x > parabolicMaxX p then Some (minSize p)
      else do {
        xx \<leftarrow> mul32 x x;
        r \<leftarrow> sub32 (maxSize p) (minSize p);
        n \<leftarrow> mul32 xx r;
        mm \<leftarrow> mul32 (parabolicMaxX p) (parabolicMaxX p);
        q \<leftarrow> div32 n mm;
        sub32 (maxSize p) q
      })"

text \<open>
  The reference definition of the spec, section 4.2, in its own three cases. The
  division is the integer division of the implementation.
\<close>

definition size_spec :: "int \<Rightarrow> int \<Rightarrow> int \<Rightarrow> int \<Rightarrow> int" where
  "size_spec maxS minS maxDistance d =
     (if d = 0 then maxS
      else if 0 \<le> d \<and> d \<le> maxDistance
        then maxS - (d * d * (maxS - minS)) sdiv (maxDistance * maxDistance)
      else minS)"

section \<open>Dock items\<close>

text \<open>
  Modelled from the spec: the accessors \<^verbatim>\<open>getWidth\<close>, \<^verbatim>\<open>getHeight\<close>, \<^verbatim>\<open>getMinWidth\<close>
  and \<^verbatim>\<open>getMinHeight\<close> of \<^verbatim>\<open>DockItem\<close> (\<^verbatim>\<open>dock_item.h\<close> is missing). The spec, section
  3, gives an item a "current size (edge length along the magnification axis)" and a
  "minimum size"; its edge-anchor example takes the height of an item magnified to 50
  to be 50.
\<close>

definition getWidth :: "DockItem \<Rightarrow> int" where
  "getWidth it = it_size it"

definition getHeight :: "DockItem \<Rightarrow> int" where
  "getHeight it = it_size it"

definition getMinWidth :: "DockItem \<Rightarrow> int" where
  "getMinWidth it = it_minSize it"

definition getMinHeight :: "DockItem \<Rightarrow> int" where
  "getMinHeight it = it_minSize it"

text \<open>
  Modelled from the spec: \<^verbatim>\<open>hasTask\<close> and \<^verbatim>\<open>shouldBeRemoved\<close> of \<^verbatim>\<open>DockItem\<close> and its
  subclasses (missing). An item "represents this task (by window identity)" when it
  owns the window id; it should be removed when it has "no task" and is "not pinned",
  where launchers, the menu trigger, pager cells, the clock and separators are pinned
  items (glossary).
\<close>

definition hasTask :: "DockItem \<Rightarrow> nat \<Rightarrow> bool" where
  "hasTask it w = (w \<in> set (it_tasks it))"

definition isPinned :: "DockItem \<Rightarrow> bool" where
  "isPinned it = (it_kind it \<noteq> Program \<or> it_pinned it)"

definition shouldBeRemoved :: "DockItem \<Rightarrow> bool" where
  "shouldBeRemoved it = (it_tasks it = [] \<and> \<not> isPinned it)"

text \<open>
  Modelled from the spec: the animation members of \<^verbatim>\<open>DockItem\<close> (missing).
  \<^verbatim>\<open>setAnimationStartAsCurrent\<close> and \<^verbatim>\<open>setAnimationEndAsCurrent\<close> capture the current
  size and position; \<^verbatim>\<open>startAnimation(n)\<close> starts from the captured start with the step
  counter at 0, as the panel does for its background; \<^verbatim>\<open>nextAnimationStep\<close> increments
  the counter and interpolates "each item's size and position" by
  \<open>current = start + (end - start) \<times> step / totalSteps\<close> (spec, section 4.4).
\<close>

definition setAnimationStartAsCurrent :: "DockItem \<Rightarrow> DockItem" where
  "setAnimationStartAsCurrent it =
     it\<lparr>it_startSize := it_size it, it_startLeft := it_left it, it_startTop := it_top it\<rparr>"

definition setAnimationEndAsCurrent :: "DockItem \<Rightarrow> DockItem" where
  "setAnimationEndAsCurrent it =
     it\<lparr>it_endSize := it_size it, it_endLeft := it_left it, it_endTop := it_top it\<rparr>"

definition startAnimation :: "int \<Rightarrow> DockItem \<Rightarrow> DockItem" where
  "startAnimation n it =
     it\<lparr>it_currentStep := 0, it_numSteps := n,
        it_size := it_startSize it, it_left := it_startLeft it, it_top := it_startTop it\<rparr>"

text \<open>
  The interpolation expression of \<^verbatim>\<open>updateAnimation\<close>,
  \<^verbatim>\<open>start + (end - start) * step / steps\<close>, in 32 bits.
\<close>

definition interpolate :: "int \<Rightarrow> int \<Rightarrow> int \<Rightarrow> int \<Rightarrow> int option" where
  "interpolate start stop step steps =
     do {
       d \<leftarrow> sub32 stop start;
       m \<leftarrow> mul32 d step;
       q \<leftarrow> div32 m steps;
       add32 start q
     }"

definition nextAnimationStep :: "DockItem \<Rightarrow> DockItem option" where
  "nextAnimationStep it =
     do {
       k \<leftarrow> add32 (it_currentStep it) 1;
       s \<leftarrow> interpolate (it_startSize it) (it_endSize it) k (it_numSteps it);
       l \<leftarrow> interpolate (it_startLeft it) (it_endLeft it) k (it_numSteps it);
       t \<leftarrow> interpolate (it_startTop it) (it_endTop it) k (it_numSteps it);
       Some (it\<lparr>it_currentStep := k, it_size := s, it_left := l, it_top := t\<rparr>)
     }"

text \<open>A loop whose body can be undefined: it stops at the first undefined step.\<close>

primrec fold_option :: "('a \<Rightarrow> 'b \<Rightarrow> 'b option) \<Rightarrow> 'a list \<Rightarrow> 'b \<Rightarrow> 'b option" where
  "fold_option f [] s = Some s"
| "fold_option f (x # xs) s = (case f x s of None \<Rightarrow> None | Some s' \<Rightarrow> fold_option f xs s')"

primrec map_option_list :: "('a \<Rightarrow> 'b option) \<Rightarrow> 'a list \<Rightarrow> 'b list option" where
  "map_option_list f [] = Some []"
| "map_option_list f (x # xs) =
     (case f x of None \<Rightarrow> None
      | Some y \<Rightarrow> (case map_option_list f xs of None \<Rightarrow> None | Some ys \<Rightarrow> Some (y # ys)))"

section \<open>Sizing the panel\<close>

text \<open>
  \<^verbatim>\<open>void DockPanel::resize(int w, int h)\<close>. \<^verbatim>\<open>QWidget::resize\<close> and \<^verbatim>\<open>move\<close> set the
  widget's size and position; the window-manager call is not modelled.
\<close>

definition resize :: "int \<Rightarrow> int \<Rightarrow> DockPanel \<Rightarrow> DockPanel option" where
  "resize w h p0 =
     (let p1 = p0\<lparr>isResizing := True, widgetWidth := w, widgetHeight := h\<rparr> in
      do {
        x \<leftarrow> (if position p1 = Top then do { d \<leftarrow> sub32 (screenWidth p1) w; div32 d 2 }
              else if position p1 = Bottom then do { d \<leftarrow> sub32 (screenWidth p1) w; div32 d 2 }
              else if position p1 = Left then Some 0
              else sub32 (screenWidth p1) w);
        y \<leftarrow> (if position p1 = Top then Some 0
              else if position p1 = Bottom then sub32 (screenHeight p1) h
              else if position p1 = Left then do { d \<leftarrow> sub32 (screenHeight p1) h; div32 d 2 }
              else do { d \<leftarrow> sub32 (screenHeight p1) h; div32 d 2 });
        p2 \<leftarrow> (if isMinimized p1
               then do {
                 a \<leftarrow> add32 x (screenX p1);
                 b \<leftarrow> add32 y (screenY p1);
                 Some (p1\<lparr>widgetX := a, widgetY := b\<rparr>) }
               else Some p1);
        p3 \<leftarrow> (if w = minWidth p2 \<and> h = minHeight p2
               then do {
                 a \<leftarrow> add32 x (screenX p2);
                 b \<leftarrow> add32 y (screenY p2);
                 Some (p2\<lparr>minX := a, minY := b\<rparr>) }
               else Some p2);
        Some (p3\<lparr>isResizing := False\<rparr>)
      })"

text \<open>
  \<^verbatim>\<open>void DockPanel::initLayoutVars()\<close>. \<^verbatim>\<open>static_cast<int>(2.5 * (minSize_ + itemSpacing_))\<close>
  is a product in \<^verbatim>\<open>double\<close>, exact on 32-bit integers, truncated towards zero:
  \<open>(5 * n) sdiv 2\<close>, undefined when that is not an \<^verbatim>\<open>int\<close>. The tooltip's font and
  colours are not modelled. \<open>layoutDelta\<close> is the local variable \<^verbatim>\<open>delta\<close>.
\<close>

definition layoutDelta :: "DockPanel \<Rightarrow> int option" where
  "layoutDelta p =
     do {
       distance \<leftarrow> add32 (minSize p) (itemSpacing p);
       if itemCount p \<ge> 5 then do {
         a \<leftarrow> parabolic p 0;
         b \<leftarrow> parabolic p distance;
         b2 \<leftarrow> mul32 2 b;
         s1 \<leftarrow> add32 a b2;
         dd \<leftarrow> mul32 2 distance;
         c \<leftarrow> parabolic p dd;
         c2 \<leftarrow> mul32 2 c;
         s2 \<leftarrow> add32 s1 c2;
         m \<leftarrow> mul32 5 (minSize p);
         sub32 s2 m }
       else if itemCount p = 4 then do {
         a \<leftarrow> parabolic p 0;
         b \<leftarrow> parabolic p distance;
         b2 \<leftarrow> mul32 2 b;
         s1 \<leftarrow> add32 a b2;
         dd \<leftarrow> mul32 2 distance;
         c \<leftarrow> parabolic p dd;
         s2 \<leftarrow> add32 s1 c;
         m \<leftarrow> mul32 4 (minSize p);
         sub32 s2 m }
       else if itemCount p = 3 then do {
         a \<leftarrow> parabolic p 0;
         b \<leftarrow> parabolic p distance;
         b2 \<leftarrow> mul32 2 b;
         s1 \<leftarrow> add32 a b2;
         m \<leftarrow> mul32 3 (minSize p);
         sub32 s1 m }
       else if itemCount p = 2 then do {
         a \<leftarrow> parabolic p 0;
         b \<leftarrow> parabolic p distance;
         s1 \<leftarrow> add32 a b;
         m \<leftarrow> mul32 2 (minSize p);
         sub32 s1 m }
       else if itemCount p = 1 then do {
         a \<leftarrow> parabolic p 0;
         sub32 a (minSize p) }
       else Some 0
     }"

text \<open>The loops at lines 807-809 and 815-817: \<^verbatim>\<open>minWidth_ += (item->getMinWidth() + itemSpacing_)\<close> and its vertical twin.\<close>

definition addMinLength :: "int \<Rightarrow> int \<Rightarrow> int \<Rightarrow> int option" where
  "addMinLength spacing minLength len = do { t \<leftarrow> add32 minLength spacing; add32 len t }"

definition initLayoutVars :: "DockPanel \<Rightarrow> DockPanel option" where
  "initLayoutVars p0 =
     (let p1 = p0\<lparr>itemSpacing := spacingOfConfig p0\<rparr> in
      do {
        n \<leftarrow> add32 (minSize p1) (itemSpacing p1);
        m \<leftarrow> (if int32 ((5 * n) sdiv 2) then Some ((5 * n) sdiv 2) else None);
        let p = p1\<lparr>parabolicMaxX := m, numAnimationSteps := 20, animationSpeed := 16\<rparr> in
        do {
          distance \<leftarrow> add32 (minSize p) (itemSpacing p);
          delta \<leftarrow> layoutDelta p;
          if orientation p = Horizontal then do {
            w \<leftarrow> fold_option (\<lambda>it. addMinLength (itemSpacing p) (getMinWidth it)) (items p) 0;
            maxW \<leftarrow> add32 w delta;
            maxH \<leftarrow> add32 (itemSpacing p) (maxSize p);
            Some (p\<lparr>minWidth := w,
                    minHeight := (if autoHide p then kAutoHideSize else distance),
                    maxWidth := maxW, maxHeight := maxH\<rparr>) }
          else do {
            h \<leftarrow> fold_option (\<lambda>it. addMinLength (itemSpacing p) (getMinHeight it)) (items p) 0;
            maxH \<leftarrow> add32 h delta;
            maxW \<leftarrow> add32 (itemSpacing p) (maxSize p);
            Some (p\<lparr>minHeight := h,
                    minWidth := (if autoHide p then kAutoHideSize else distance),
                    maxHeight := maxH, maxWidth := maxW\<rparr>) }
        }
      })"

section \<open>The rest layout\<close>

text \<open>
  The body of the loop at lines 839-852 of \<^verbatim>\<open>updateLayout()\<close>, for the index \<open>i\<close>:
  the size is reset to \<^verbatim>\<open>minSize_\<close> and the item is placed after its predecessor.
\<close>

definition restLayoutStep :: "DockPanel \<Rightarrow> nat \<Rightarrow> DockItem list \<Rightarrow> DockItem list option" where
  "restLayoutStep p i xs =
     (let it = (xs ! i)\<lparr>it_size := minSize p\<rparr> in
      if isHorizontal p then do {
        l \<leftarrow> (if i = 0 then div32 (itemSpacing p) 2
              else do {
                a \<leftarrow> add32 (it_left (xs ! (i - 1))) (getMinWidth (xs ! (i - 1)));
                add32 a (itemSpacing p) });
        t \<leftarrow> div32 (itemSpacing p) 2;
        h \<leftarrow> div32 (getMinWidth it) 2;
        c \<leftarrow> add32 l h;
        Some (xs[i := it\<lparr>it_left := l, it_top := t, it_minCenter := c\<rparr>]) }
      else do {
        l \<leftarrow> div32 (itemSpacing p) 2;
        t \<leftarrow> (if i = 0 then div32 (itemSpacing p) 2
              else do {
                a \<leftarrow> add32 (it_top (xs ! (i - 1))) (getMinHeight (xs ! (i - 1)));
                add32 a (itemSpacing p) });
        h \<leftarrow> div32 (getMinHeight it) 2;
        c \<leftarrow> add32 t h;
        Some (xs[i := it\<lparr>it_left := l, it_top := t, it_minCenter := c\<rparr>]) })"

definition restLayout :: "DockPanel \<Rightarrow> DockItem list option" where
  "restLayout p = fold_option (restLayoutStep p) [0..<length (items p)] (items p)"

text \<open>
  The body of the loop at lines 862-882: the end of a leaving animation is the rest
  position seen from the maximized window. \<open>distance\<close> is the local constant of
  \<^verbatim>\<open>updateLayout()\<close>.
\<close>

definition leavingEnd :: "DockPanel \<Rightarrow> int \<Rightarrow> DockItem \<Rightarrow> DockItem option" where
  "leavingEnd p distance it0 =
     (let it = it0\<lparr>it_endSize := it_size it0\<rparr> in
      do {
        it' \<leftarrow>
          (if isHorizontal p then do {
             a \<leftarrow> sub32 (screenWidth p) (minWidth p);
             b \<leftarrow> div32 a 2;
             c \<leftarrow> add32 (it_left it) b;
             d \<leftarrow> sub32 c (widgetX p);
             l \<leftarrow> add32 d (screenX p);
             t \<leftarrow> (if position p = Top
                   then do { e \<leftarrow> add32 (it_top it) (minHeight p); sub32 e distance }
                   else do { e \<leftarrow> sub32 (maxHeight p) (minHeight p); add32 (it_top it) e });
             Some (it\<lparr>it_endLeft := l, it_endTop := t\<rparr>) }
           else do {
             a \<leftarrow> sub32 (screenHeight p) (minHeight p);
             b \<leftarrow> div32 a 2;
             c \<leftarrow> add32 (it_top it) b;
             d \<leftarrow> sub32 c (widgetY p);
             t \<leftarrow> add32 d (screenY p);
             l \<leftarrow> (if position p = Left
                   then do { e \<leftarrow> add32 (it_left it) (minWidth p); sub32 e distance }
                   else do { e \<leftarrow> sub32 (maxWidth p) (minWidth p); add32 (it_left it) e });
             Some (it\<lparr>it_endTop := t, it_endLeft := l\<rparr>) });
        Some (startAnimation (numAnimationSteps p) it')
      })"

text \<open>
  \<^verbatim>\<open>void DockPanel::updateLayout()\<close>. The first loop assigns the start of the background
  inside its body, so only when there is an item. \<^verbatim>\<open>update()\<close> schedules a repaint and
  is not modelled.
\<close>

definition updateLayout :: "DockPanel \<Rightarrow> DockPanel option" where
  "updateLayout p0 =
     do {
       distance \<leftarrow> add32 (minSize p0) (itemSpacing p0);
       let p1 = (if isLeaving p0 then
                   (let q = p0\<lparr>items := map setAnimationStartAsCurrent (items p0)\<rparr> in
                    if items p0 = [] then q
                    else if isHorizontal q
                      then q\<lparr>startBackgroundWidth := backgroundWidth q,
                             startBackgroundHeight := distance\<rparr>
                      else q\<lparr>startBackgroundHeight := backgroundHeight q,
                             startBackgroundWidth := distance\<rparr>)
                 else p0) in
       do {
         xs \<leftarrow> restLayout p1;
         let p2 = p1\<lparr>items := xs\<rparr>;
             p3 = (if isHorizontal p2
                   then p2\<lparr>backgroundWidth := minWidth p2, backgroundHeight := distance\<rparr>
                   else p2\<lparr>backgroundHeight := minHeight p2, backgroundWidth := distance\<rparr>)
         in if isLeaving p3 then do {
              ys \<leftarrow> map_option_list (leavingEnd p3 distance) (items p3);
              let p4 = p3\<lparr>items := ys\<rparr>;
                  p5 = (if isHorizontal p4
                        then p4\<lparr>endBackgroundWidth := minWidth p4,
                                backgroundWidth := startBackgroundWidth p4,
                                endBackgroundHeight :=
                                  (if autoHide p4 then kAutoHideSize else distance),
                                backgroundHeight := startBackgroundHeight p4\<rparr>
                        else p4\<lparr>endBackgroundHeight := minHeight p4,
                                backgroundHeight := startBackgroundHeight p4,
                                endBackgroundWidth :=
                                  (if autoHide p4 then kAutoHideSize else distance),
                                backgroundWidth := startBackgroundWidth p4\<rparr>)
              in do {
                interval \<leftarrow> sub32 32 (animationSpeed p5);
                Some (p5\<lparr>currentAnimationStep := 0, isAnimationActive := True,
                        animationTimer := Some interval\<rparr>) } }
            else resize (minWidth p3) (minHeight p3) (p3\<lparr>isMinimized := True\<rparr>)
       }
     }"

section \<open>The pointer-driven layout\<close>

text \<open>
  The body of the loop at lines 907-924 of \<^verbatim>\<open>updateLayout(int x, int y)\<close>: the start
  of an entering animation is the rest position seen from the maximized window.
\<close>

definition enteringStart :: "DockPanel \<Rightarrow> int \<Rightarrow> DockItem \<Rightarrow> DockItem option" where
  "enteringStart p distance it0 =
     (let it = it0\<lparr>it_startSize := it_size it0\<rparr> in
      if isHorizontal p then do {
        a \<leftarrow> sub32 (maxWidth p) (minWidth p);
        b \<leftarrow> div32 a 2;
        l \<leftarrow> add32 (it_left it) b;
        t \<leftarrow> (if position p = Top
              then do { e \<leftarrow> add32 (it_top it) (minHeight p); sub32 e distance }
              else do { e \<leftarrow> sub32 (maxHeight p) (minHeight p); add32 (it_top it) e });
        Some (it\<lparr>it_startLeft := l, it_startTop := t\<rparr>) }
      else do {
        a \<leftarrow> sub32 (maxHeight p) (minHeight p);
        b \<leftarrow> div32 a 2;
        t \<leftarrow> add32 (it_top it) b;
        l \<leftarrow> (if position p = Left
              then do { e \<leftarrow> add32 (it_left it) (minWidth p); sub32 e distance }
              else do { e \<leftarrow> sub32 (maxWidth p) (minWidth p); add32 (it_left it) e });
        Some (it\<lparr>it_startTop := t, it_startLeft := l\<rparr>) })"

text \<open>
  The state of the loops of \<^verbatim>\<open>updateLayout(int x, int y)\<close>: the items and the local
  variables \<^verbatim>\<open>first_update_index\<close> and \<^verbatim>\<open>last_update_index\<close>.
\<close>

record ZoomState =
  zs_items :: "DockItem list"
  first_update_index :: int
  last_update_index :: int

text \<open>
  The local variable \<^verbatim>\<open>delta\<close> of the loop at lines 941-973 (and of the loop at lines
  1069-1100): the distance of the item's rest centre from the pointer \<open>m\<close>, which is
  \<^verbatim>\<open>x\<close> or \<^verbatim>\<open>y\<close> (\<^verbatim>\<open>mouseX_\<close> or \<^verbatim>\<open>mouseY_\<close>), in the window of length \<open>w\<close>.
\<close>

definition pointerDistance :: "int \<Rightarrow> int \<Rightarrow> int \<Rightarrow> int \<Rightarrow> int option" where
  "pointerDistance minCenter m w minLength =
     do {
       a \<leftarrow> sub32 minCenter m;
       b \<leftarrow> sub32 w minLength;
       c \<leftarrow> div32 b 2;
       d \<leftarrow> add32 a c;
       abs32 d
     }"

text \<open>
  Lines 954-972 (and 1081-1099): the item \<open>i\<close> takes the size \<open>s\<close>, is anchored to the
  panel's edge across the axis, and is placed after its predecessor along the axis.
\<close>

definition placeZoomed :: "DockPanel \<Rightarrow> nat \<Rightarrow> int \<Rightarrow> DockItem list \<Rightarrow> DockItem list option" where
  "placeZoomed p i s xs =
     (let it = (xs ! i)\<lparr>it_size := s\<rparr> in
      do {
        it1 \<leftarrow> (if position p = Top
                then do { h \<leftarrow> div32 (itemSpacing p) 2; Some (it\<lparr>it_top := h\<rparr>) }
                else if position p = Bottom
                then do {
                  h \<leftarrow> div32 (itemSpacing p) 2;
                  a \<leftarrow> add32 h (maxSize p);
                  t \<leftarrow> sub32 a (getHeight it);
                  Some (it\<lparr>it_top := t\<rparr>) }
                else if position p = Left
                then do { h \<leftarrow> div32 (itemSpacing p) 2; Some (it\<lparr>it_left := h\<rparr>) }
                else do {
                  h \<leftarrow> div32 (itemSpacing p) 2;
                  a \<leftarrow> add32 h (maxSize p);
                  l \<leftarrow> sub32 a (getWidth it);
                  Some (it\<lparr>it_left := l\<rparr>) });
        it2 \<leftarrow> (if i > 0 then
                  (if isHorizontal p
                   then do {
                     a \<leftarrow> add32 (it_left (xs ! (i - 1))) (getWidth (xs ! (i - 1)));
                     l \<leftarrow> add32 a (itemSpacing p);
                     Some (it1\<lparr>it_left := l\<rparr>) }
                   else do {
                     a \<leftarrow> add32 (it_top (xs ! (i - 1))) (getHeight (xs ! (i - 1)));
                     t \<leftarrow> add32 a (itemSpacing p);
                     Some (it1\<lparr>it_top := t\<rparr>) })
                else Some it1);
        Some (xs[i := it2])
      })"

text \<open>The body of the loop at lines 941-973, for the index \<open>i\<close>.\<close>

definition zoomStep :: "DockPanel \<Rightarrow> int \<Rightarrow> int \<Rightarrow> nat \<Rightarrow> ZoomState \<Rightarrow> ZoomState option" where
  "zoomStep p x y i st =
     do {
       delta \<leftarrow> (if isHorizontal p
                 then pointerDistance (it_minCenter (zs_items st ! i)) x
                        (widgetWidth p) (minWidth p)
                 else pointerDistance (it_minCenter (zs_items st ! i)) y
                        (widgetHeight p) (minHeight p));
       let st1 = (if delta < parabolicMaxX p then
                    (if first_update_index st = - 1
                     then st\<lparr>first_update_index := int i\<rparr> else st)
                      \<lparr>last_update_index := int i\<rparr>
                  else st) in
       do {
         s \<leftarrow> parabolic p delta;
         xs \<leftarrow> placeZoomed p i s (zs_items st);
         Some (st1\<lparr>zs_items := xs\<rparr>)
       }
     }"

text \<open>The body of the loop at lines 974-984: anchoring against the far edge.\<close>

definition anchorStep :: "DockPanel \<Rightarrow> nat \<Rightarrow> DockItem list \<Rightarrow> DockItem list option" where
  "anchorStep p i xs =
     (if isHorizontal p then do {
        l \<leftarrow> (if int i = itemCount p - 1
              then do {
                h \<leftarrow> div32 (itemSpacing p) 2;
                a \<leftarrow> sub32 (maxWidth p) h;
                sub32 a (getMinWidth (xs ! i)) }
              else do {
                a \<leftarrow> sub32 (it_left (xs ! (i + 1))) (getMinWidth (xs ! i));
                sub32 a (itemSpacing p) });
        Some (xs[i := (xs ! i)\<lparr>it_left := l\<rparr>]) }
      else do {
        t \<leftarrow> (if int i = itemCount p - 1
              then do {
                h \<leftarrow> div32 (itemSpacing p) 2;
                a \<leftarrow> sub32 (maxHeight p) h;
                sub32 a (getMinHeight (xs ! i)) }
              else do {
                a \<leftarrow> sub32 (it_top (xs ! (i + 1))) (getMinHeight (xs ! i));
                sub32 a (itemSpacing p) });
        Some (xs[i := (xs ! i)\<lparr>it_top := t\<rparr>]) })"

text \<open>The body of the loop at lines 986-994: the correction pass.\<close>

definition correctStep :: "DockPanel \<Rightarrow> nat \<Rightarrow> DockItem list \<Rightarrow> DockItem list option" where
  "correctStep p i xs =
     (if isHorizontal p then do {
        a \<leftarrow> sub32 (it_left (xs ! (i + 1))) (getWidth (xs ! i));
        l \<leftarrow> sub32 a (itemSpacing p);
        Some (xs[i := (xs ! i)\<lparr>it_left := l\<rparr>]) }
      else do {
        a \<leftarrow> sub32 (it_top (xs ! (i + 1))) (getHeight (xs ! i));
        t \<leftarrow> sub32 a (itemSpacing p);
        Some (xs[i := (xs ! i)\<lparr>it_top := t\<rparr>]) })"

text \<open>
  Lines 934-995: the three passes. The assignment to \<^verbatim>\<open>items_[0]\<close> at lines 936-940 is
  not guarded: on an empty vector it is an access outside the vector.
\<close>

definition magnify :: "DockPanel \<Rightarrow> int \<Rightarrow> int \<Rightarrow> DockItem list option" where
  "magnify p x y =
     (case items p of
        [] \<Rightarrow> None
      | it0 # rest \<Rightarrow>
          do {
            h \<leftarrow> div32 (itemSpacing p) 2;
            let xs0 = (if isHorizontal p then it0\<lparr>it_left := h\<rparr>
                       else it0\<lparr>it_top := h\<rparr>) # rest;
                n = length xs0
            in do {
              st \<leftarrow> fold_option (zoomStep p x y) [0..<n]
                     \<lparr>zs_items = xs0, first_update_index = - 1, last_update_index = 0\<rparr>;
              xs1 \<leftarrow> fold_option (anchorStep p) (rev [nat (last_update_index st + 1)..<n])
                      (zs_items st);
              if first_update_index st = 0 \<and> last_update_index st < itemCount p - 1
              then fold_option (correctStep p)
                     (rev [nat (first_update_index st)..<nat (last_update_index st + 1)]) xs1
              else Some xs1
            }
          })"

text \<open>
  \<^verbatim>\<open>void DockPanel::updateLayout(int x, int y)\<close>: the start of an entering animation is
  captured (lines 906-932), the three passes run, and an entering animation is started
  (lines 997-1023).
\<close>

definition updateLayoutXY :: "int \<Rightarrow> int \<Rightarrow> DockPanel \<Rightarrow> DockPanel option" where
  "updateLayoutXY x y p0 =
     do {
       distance \<leftarrow> add32 (minSize p0) (itemSpacing p0);
       p1 \<leftarrow> (if isEntering p0 then do {
                xs \<leftarrow> map_option_list (enteringStart p0 distance) (items p0);
                let q = p0\<lparr>items := xs\<rparr> in
                Some (if isHorizontal q
                      then q\<lparr>startBackgroundWidth := minWidth q,
                             startBackgroundHeight :=
                               (if autoHide q then kAutoHideSize else distance)\<rparr>
                      else q\<lparr>startBackgroundHeight := minHeight q,
                             startBackgroundWidth :=
                               (if autoHide q then kAutoHideSize else distance)\<rparr>) }
              else Some p0);
       xs \<leftarrow> magnify p1 x y;
       let p2 = p1\<lparr>items := xs\<rparr> in
       do {
         p3 \<leftarrow> (if isEntering p2 then
                   (let q = p2\<lparr>items := map (\<lambda>it. startAnimation (numAnimationSteps p2)
                                                 (setAnimationEndAsCurrent it)) (items p2)\<rparr>
                    in do {
                      q' \<leftarrow> (if isHorizontal q then do {
                                a \<leftarrow> sub32 (maxWidth q) (minWidth q);
                                b \<leftarrow> div32 a 2;
                                m \<leftarrow> add32 x b;
                                Some (q\<lparr>endBackgroundWidth := maxWidth q,
                                        backgroundWidth := startBackgroundWidth q,
                                        endBackgroundHeight := distance,
                                        backgroundHeight := startBackgroundHeight q,
                                        mouseX := m\<rparr>) }
                             else do {
                                a \<leftarrow> sub32 (maxHeight q) (minHeight q);
                                b \<leftarrow> div32 a 2;
                                m \<leftarrow> add32 y b;
                                Some (q\<lparr>endBackgroundHeight := maxHeight q,
                                        backgroundHeight := startBackgroundHeight q,
                                        endBackgroundWidth := distance,
                                        backgroundWidth := startBackgroundWidth q,
                                        mouseY := m\<rparr>) });
                      interval \<leftarrow> sub32 32 (animationSpeed q');
                      Some (q'\<lparr>currentAnimationStep := 0, isAnimationActive := True,
                              isEntering := False, animationTimer := Some interval\<rparr>)
                    })
                 else Some (p2\<lparr>mouseX := x, mouseY := y\<rparr>));
         r \<leftarrow> resize (maxWidth p3) (maxHeight p3) p3;
         Some (r\<lparr>isMinimized := False\<rparr>)
       }
     }"

section \<open>Re-layout after the item set changed\<close>

text \<open>
  The loops of \<^verbatim>\<open>resizeTaskManager()\<close>. The first (lines 1052-1066) recomputes the
  rest centres beyond the items to keep, with its locals \<^verbatim>\<open>left\<close> and \<^verbatim>\<open>top\<close>
  (\<open>leftv\<close>, \<open>topv\<close>); the second (lines 1069-1100) magnifies those items around the
  recorded pointer; the third (lines 1102-1113) has the body of \<open>anchorStep\<close>.
\<close>

definition itemsToKeep :: "DockPanel \<Rightarrow> nat" where
  "itemsToKeep p =
     (if showApplicationMenu p then 1 else 0) + (if showPager p then numberOfDesktops p else 0)"

definition recenterStep ::
  "DockPanel \<Rightarrow> nat \<Rightarrow> DockItem list \<times> int \<times> int \<Rightarrow> (DockItem list \<times> int \<times> int) option" where
  "recenterStep p i st =
     (case st of (xs, leftv, topv) \<Rightarrow>
        if isHorizontal p then do {
          leftv' \<leftarrow> (if i = 0 then div32 (itemSpacing p) 2
                    else do {
                      a \<leftarrow> add32 leftv (getMinWidth (xs ! (i - 1)));
                      add32 a (itemSpacing p) });
          if i \<ge> itemsToKeep p then do {
            h \<leftarrow> div32 (getMinWidth (xs ! i)) 2;
            c \<leftarrow> add32 leftv' h;
            Some (xs[i := (xs ! i)\<lparr>it_minCenter := c\<rparr>], leftv', topv) }
          else Some (xs, leftv', topv) }
        else do {
          topv' \<leftarrow> (if i = 0 then div32 (itemSpacing p) 2
                   else do {
                     a \<leftarrow> add32 topv (getMinHeight (xs ! (i - 1)));
                     add32 a (itemSpacing p) });
          if i \<ge> itemsToKeep p then do {
            h \<leftarrow> div32 (getMinHeight (xs ! i)) 2;
            c \<leftarrow> add32 topv' h;
            Some (xs[i := (xs ! i)\<lparr>it_minCenter := c\<rparr>], leftv, topv') }
          else Some (xs, leftv, topv') })"

definition retaskStep ::
  "DockPanel \<Rightarrow> nat \<Rightarrow> DockItem list \<times> int \<Rightarrow> (DockItem list \<times> int) option" where
  "retaskStep p i st =
     (case st of (xs, lastv) \<Rightarrow>
        do {
          delta \<leftarrow> (if isHorizontal p
                    then pointerDistance (it_minCenter (xs ! i)) (mouseX p)
                           (widgetWidth p) (minWidth p)
                    else pointerDistance (it_minCenter (xs ! i)) (mouseY p)
                           (widgetHeight p) (minHeight p));
          let lastv' = (if delta < parabolicMaxX p then int i else lastv) in
          do {
            s \<leftarrow> parabolic p delta;
            ys \<leftarrow> placeZoomed p i s xs;
            Some (ys, lastv')
          }
        })"

text \<open>
  \<^verbatim>\<open>void DockPanel::resizeTaskManager()\<close>. \<^verbatim>\<open>QWidget::resize\<close> sets the size of the widget
  only.
\<close>

definition resizeTaskManager :: "DockPanel \<Rightarrow> DockPanel option" where
  "resizeTaskManager p0 =
     do {
       p \<leftarrow> initLayoutVars p0;
       if isMinimized p then updateLayout p
       else
         (let p1 = p\<lparr>widgetWidth := maxWidth p, widgetHeight := maxHeight p\<rparr>;
              p2 = (if isHorizontal p1 then p1\<lparr>backgroundWidth := maxWidth p1\<rparr>
                    else p1\<lparr>backgroundHeight := maxHeight p1\<rparr>);
              n = length (items p2)
          in do {
            st1 \<leftarrow> fold_option (recenterStep p2) [0..<n] (items p2, 0, 0);
            st \<leftarrow> fold_option (retaskStep p2) [itemsToKeep p2..<n] (fst st1, 0);
            xs3 \<leftarrow> fold_option (anchorStep p2)
                     (rev [max (itemsToKeep p2) (nat (snd st + 1))..<n]) (fst st);
            Some (p2\<lparr>items := xs3\<rparr>)
          })
     }"

section \<open>Hit testing and the tooltip\<close>

text \<open>\<^verbatim>\<open>int DockPanel::findActiveItem(int x, int y)\<close>: the loop, from the index \<open>i\<close>.\<close>

function findActiveLoop :: "DockPanel \<Rightarrow> int \<Rightarrow> int \<Rightarrow> nat \<Rightarrow> nat" where
  "findActiveLoop p x y i =
     (if i < length (items p) \<and>
         ((orientation p = Horizontal \<and> it_left (items p ! i) < x) \<or>
          (orientation p = Vertical \<and> it_top (items p ! i) < y))
      then findActiveLoop p x y (Suc i)
      else i)"
  by pat_completeness auto
termination
  by (relation "measure (\<lambda>(p, x, y, i). length (items p) - i)") auto

declare findActiveLoop.simps [simp del]

definition findActiveItem :: "DockPanel \<Rightarrow> int \<Rightarrow> int \<Rightarrow> int" where
  "findActiveItem p x y = int (findActiveLoop p x y 0) - 1"

text \<open>
  \<^verbatim>\<open>void DockPanel::showTooltip(int i)\<close> reads \<^verbatim>\<open>items_[i]\<close>; the position of the tooltip
  window is not modelled. \<^verbatim>\<open>void DockPanel::showTooltip(int x, int y)\<close> guards it.
\<close>

definition showTooltipAt :: "int \<Rightarrow> DockPanel \<Rightarrow> DockPanel option" where
  "showTooltipAt i p =
     (if 0 \<le> i \<and> i < itemCount p then Some (p\<lparr>tooltip := Some (nat i)\<rparr>) else None)"

definition showTooltip :: "int \<Rightarrow> int \<Rightarrow> DockPanel \<Rightarrow> DockPanel option" where
  "showTooltip x y p =
     (let i = findActiveItem p x y in
      if i < 0 \<or> i \<ge> itemCount p then Some (p\<lparr>tooltip := None\<rparr>)
      else showTooltipAt i p)"

text \<open>
  \<^verbatim>\<open>void DockPanel::mousePressEvent(QMouseEvent* e)\<close>. The handler of the item is outside
  the panel: the model returns the panel and which item, if any, received the event.
\<close>

datatype PressOutcome = Ignored | Dispatched nat

definition mousePressEvent :: "int \<Rightarrow> int \<Rightarrow> DockPanel \<Rightarrow> (DockPanel \<times> PressOutcome) option" where
  "mousePressEvent x y p =
     (if isAnimationActive p then Some (p, Ignored)
      else
        (let i = findActiveItem p x y in
         if i < 0 \<or> i \<ge> itemCount p then Some (p, Ignored)
         else if 0 \<le> i \<and> nat i < length (items p) then Some (p, Dispatched (nat i))
         else None))"

section \<open>The zoom animation\<close>

text \<open>
  \<^verbatim>\<open>void DockPanel::updateAnimation()\<close>: lines 246-255 interpolate (\<open>animationStep\<close>),
  lines 256-265 finish the animation at the last step (\<open>finishAnimation\<close>).
\<close>

definition animationStep :: "DockPanel \<Rightarrow> DockPanel option" where
  "animationStep p =
     do {
       xs \<leftarrow> map_option_list nextAnimationStep (items p);
       k \<leftarrow> add32 (currentAnimationStep p) 1;
       w \<leftarrow> interpolate (startBackgroundWidth p) (endBackgroundWidth p) k
              (numAnimationSteps p);
       h \<leftarrow> interpolate (startBackgroundHeight p) (endBackgroundHeight p) k
              (numAnimationSteps p);
       Some (p\<lparr>items := xs, currentAnimationStep := k,
               backgroundWidth := w, backgroundHeight := h\<rparr>)
     }"

definition finishAnimation :: "DockPanel \<Rightarrow> DockPanel option" where
  "finishAnimation p =
     (if currentAnimationStep p = numAnimationSteps p then
        (let p1 = p\<lparr>animationTimer := None, isAnimationActive := False\<rparr> in
         if isLeaving p1 then updateLayout (p1\<lparr>isLeaving := False\<rparr>)
         else showTooltip (mouseX p1) (mouseY p1) p1)
      else Some p)"

definition updateAnimation :: "DockPanel \<Rightarrow> DockPanel option" where
  "updateAnimation p = do { q \<leftarrow> animationStep p; finishAnimation q }"

text \<open>The timer calls \<^verbatim>\<open>updateAnimation\<close> once per tick: \<open>k\<close> ticks in a row.\<close>

primrec ticks :: "nat \<Rightarrow> DockPanel \<Rightarrow> DockPanel option" where
  "ticks 0 p = Some p"
| "ticks (Suc k) p = do { q \<leftarrow> ticks k p; updateAnimation q }"

text \<open>
  \<^verbatim>\<open>void DockPanel::leaveEvent(QEvent* e)\<close>: the pointer leaves a panel that is not
  minimized. The window-manager call is not modelled.
\<close>

definition leaveEvent :: "DockPanel \<Rightarrow> DockPanel option" where
  "leaveEvent p =
     (if isMinimized p then Some p
      else do {
        q \<leftarrow> updateLayout (p\<lparr>isLeaving := True\<rparr>);
        Some (q\<lparr>tooltip := None\<rparr>)
      })"

section \<open>The item collection\<close>

text \<open>
  The collaborators of \<^verbatim>\<open>addTask\<close> that are outside the sources, taken as
  parameters: \<^verbatim>\<open>model_->findApplication\<close> (the application registry), the rule by which
  a program's task command matches the command of a task, and \<^verbatim>\<open>DockItem::beforeTask\<close>
  (the ordering rule of the items).
\<close>

record Application =
  app_name :: string
  app_icon :: string
  app_command :: string
  app_taskCommand :: string

record Collaborators =
  findApplication :: "string \<Rightarrow> Application option"
  sameCommand :: "string \<Rightarrow> string \<Rightarrow> bool"
  beforeTask :: "DockItem \<Rightarrow> string \<Rightarrow> bool"

text \<open>
  Modelled from the spec: \<^verbatim>\<open>DockItem::addTask\<close> (missing). A task attaches to "an
  existing program-backed item with matching launch command"; the result is the item
  with the task when it accepts (\<^verbatim>\<open>true\<close>) and \<open>None\<close> when it refuses (\<^verbatim>\<open>false\<close>).
\<close>

definition itemAddTask :: "Collaborators \<Rightarrow> TaskInfo \<Rightarrow> DockItem \<Rightarrow> DockItem option" where
  "itemAddTask c task it =
     (if it_kind it = Program \<and> sameCommand c (it_taskCommand it) (command task)
      then Some (it\<lparr>it_tasks := it_tasks it @ [wId task]\<rparr>)
      else None)"

text \<open>
  The constructor call \<^verbatim>\<open>Program(this, model_, name, orientation_, icon, minSize_, maxSize_,
  command, taskCommand, pinned)\<close>: a program without tasks. The geometry of a new item
  is set by the next layout; the model starts it at the minimum size and at 0.
\<close>

definition newProgram :: "string \<Rightarrow> int \<Rightarrow> int \<Rightarrow> string \<Rightarrow> string \<Rightarrow> bool \<Rightarrow> DockItem" where
  "newProgram name minS maxS cmd taskCmd pinned =
     \<lparr>it_kind = Program, it_label = name, it_command = cmd, it_taskCommand = taskCmd,
      it_pinned = pinned, it_tasks = [], it_minSize = minS, it_maxSize = maxS,
      it_size = minS, it_left = 0, it_top = 0, it_minCenter = 0,
      it_startSize = minS, it_startLeft = 0, it_startTop = 0,
      it_endSize = minS, it_endLeft = 0, it_endTop = 0,
      it_currentStep = 0, it_numSteps = 0\<rparr>"

text \<open>The second loop of \<^verbatim>\<open>addTask\<close> (lines 724-728): the first item that accepts.\<close>

primrec offerTask :: "Collaborators \<Rightarrow> TaskInfo \<Rightarrow> DockItem list \<Rightarrow> DockItem list option" where
  "offerTask c task [] = None"
| "offerTask c task (it # xs) =
     (case itemAddTask c task it of
        Some it' \<Rightarrow> Some (it' # xs)
      | None \<Rightarrow> (case offerTask c task xs of None \<Rightarrow> None | Some xs' \<Rightarrow> Some (it # xs')))"

text \<open>The loop at line 734, from the index \<open>i\<close>.\<close>

function insertIndex :: "Collaborators \<Rightarrow> string \<Rightarrow> DockItem list \<Rightarrow> nat \<Rightarrow> nat" where
  "insertIndex c cmd xs i =
     (if i < length xs \<and> beforeTask c (xs ! i) cmd then insertIndex c cmd xs (Suc i) else i)"
  by pat_completeness auto
termination
  by (relation "measure (\<lambda>(c, cmd, xs, i). length xs - i)") auto

declare insertIndex.simps [simp del]

text \<open>\<^verbatim>\<open>void DockPanel::addTask(const TaskInfo& task)\<close>.\<close>

definition addTask :: "Collaborators \<Rightarrow> TaskInfo \<Rightarrow> DockPanel \<Rightarrow> DockPanel" where
  "addTask c task p =
     (if list_ex (\<lambda>it. hasTask it (wId task)) (items p) then p
      else
        (case offerTask c task (items p) of
           Some xs \<Rightarrow> p\<lparr>items := xs\<rparr>
         | None \<Rightarrow>
            (let app = findApplication c (command task);
                 cmd = (case app of Some a \<Rightarrow> app_taskCommand a | None \<Rightarrow> command task);
                 i = insertIndex c cmd (items p) 0;
                 new = (case app of
                          Some a \<Rightarrow> newProgram (app_name a) (minSize p) (maxSize p)
                                      (app_command a) (app_taskCommand a) False
                        | None \<Rightarrow> newProgram (program task) (minSize p) (maxSize p)
                                    (command task) (command task) False);
                 xs = take i (items p) @ new # drop i (items p)
             in p\<lparr>items := xs[i := (case itemAddTask c task (xs ! i) of
                                       Some it \<Rightarrow> it | None \<Rightarrow> xs ! i)]\<rparr>)))"

text \<open>
  \<^verbatim>\<open>void DockPanel::refresh()\<close>: the loop, from the index \<open>i\<close>. The function returns
  \<^verbatim>\<open>void\<close>; the model keeps this result as \<open>()\<close> next to the new panel.
\<close>

function refreshLoop :: "nat \<Rightarrow> DockPanel \<Rightarrow> DockPanel option" where
  "refreshLoop i p =
     (if i < length (items p) then
        (if shouldBeRemoved (items p ! i)
         then resizeTaskManager (p\<lparr>items := take i (items p) @ drop (Suc i) (items p)\<rparr>)
         else refreshLoop (Suc i) p)
      else Some p)"
  by pat_completeness auto
termination
  by (relation "measure (\<lambda>(i, p). length (items p) - i)") auto

declare refreshLoop.simps [simp del]

definition refresh :: "DockPanel \<Rightarrow> (unit \<times> DockPanel) option" where
  "refresh p = map_option (Pair ()) (refreshLoop 0 p)"

section \<open>A concrete panel\<close>

text \<open>
  The examples below run on a bottom panel with icons from 32 to 64 pixels and a
  spacing of 16, before \<^verbatim>\<open>initUi\<close>, and on square program items.
\<close>

definition exampleItem :: "string \<Rightarrow> bool \<Rightarrow> nat list \<Rightarrow> DockItem" where
  "exampleItem name pinned tasks = (newProgram name 32 64 name name pinned)\<lparr>it_tasks := tasks\<rparr>"

definition examplePanel :: "DockItem list \<Rightarrow> DockPanel" where
  "examplePanel xs =
     \<lparr>position = Bottom, orientation = Horizontal, visibility = AlwaysVisible,
      showApplicationMenu = False, showPager = False,
      minSize = 32, maxSize = 64, itemSpacing = 16,
      minX = 0, minY = 0, minWidth = 0, maxWidth = 0, minHeight = 0, maxHeight = 0,
      parabolicMaxX = 120,
      screenX = 0, screenY = 0, screenWidth = 1920, screenHeight = 1080,
      numAnimationSteps = 20, animationSpeed = 16,
      items = xs,
      isMinimized = True, isResizing = False, isEntering = False, isLeaving = False,
      isAnimationActive = False, currentAnimationStep = 0,
      backgroundWidth = 0, startBackgroundWidth = 0, endBackgroundWidth = 0,
      backgroundHeight = 0, startBackgroundHeight = 0, endBackgroundHeight = 0,
      mouseX = 0, mouseY = 0,
      widgetX = 0, widgetY = 0, widgetWidth = 0, widgetHeight = 0,
      animationTimer = None, tooltip = None,
      spacingOfConfig = 16, numberOfDesktops = 4\<rparr>"

text \<open>
  The end of \<^verbatim>\<open>void DockPanel::initUi()\<close>, once the items are created:
  \<^verbatim>\<open>initLayoutVars(); updateLayout();\<close> (\<^verbatim>\<open>setStrut\<close> is a window-manager call).
\<close>

definition initUi :: "DockPanel \<Rightarrow> DockPanel option" where
  "initUi p = do { q \<leftarrow> initLayoutVars p; updateLayout q }"

text \<open>The example panel with two and with three pinned programs, after \<^verbatim>\<open>initUi\<close>.\<close>

definition exampleDock :: "nat \<Rightarrow> DockPanel" where
  "exampleDock n =
     (case initUi (examplePanel (map (\<lambda>i. exampleItem ''app'' True []) [0..<n])) of
        Some q \<Rightarrow> q
      | None \<Rightarrow> examplePanel [])"

text \<open>
  The example panel with three items when the pointer enters at \<open>(60, 10)\<close>: the start
  and the end of the entering animation are captured.
\<close>

definition enteringDock :: DockPanel where
  "enteringDock =
     (case updateLayoutXY 60 10 ((exampleDock 3)\<lparr>isEntering := True\<rparr>) of
        Some q \<Rightarrow> q
      | None \<Rightarrow> examplePanel [])"

text \<open>
  Example collaborators: a registry that knows Firefox, commands that match when they
  are equal, and an ordering rule that puts the application menu, the pager and the
  separators before every command, the clock after every command, and orders the
  programs by their task command.
\<close>

definition exampleCollaborators :: Collaborators where
  "exampleCollaborators =
     \<lparr>findApplication = (\<lambda>cmd. if cmd = ''firefox''
          then Some \<lparr>app_name = ''Firefox'', app_icon = ''firefox'',
                      app_command = ''firefox %u'', app_taskCommand = ''firefox''\<rparr>
          else None),
      sameCommand = (\<lambda>a b. a = b),
      beforeTask = (\<lambda>it cmd. it_kind it \<noteq> Clock \<and>
                     (it_kind it = Program \<longrightarrow> it_taskCommand it < cmd))\<rparr>"

definition exampleTask :: "nat \<Rightarrow> string \<Rightarrow> TaskInfo" where
  "exampleTask w cmd = \<lparr>wId = w, program = cmd, command = cmd\<rparr>"

text \<open>
  The panel of the spec's insertion example: the application menu, two pager cells and
  the programs Firefox (window 1) and Konsole (window 2).
\<close>

definition taskPanel :: DockPanel where
  "taskPanel = examplePanel
     [(exampleItem ''menu'' True [])\<lparr>it_kind := ApplicationMenu\<rparr>,
      (exampleItem ''desktop1'' True [])\<lparr>it_kind := DesktopSelector\<rparr>,
      (exampleItem ''desktop2'' True [])\<lparr>it_kind := DesktopSelector\<rparr>,
      exampleItem ''firefox'' False [1],
      exampleItem ''konsole'' False [2]]"

text \<open>
  A panel with a pinned launcher, a closed unpinned program, a running program and
  another closed unpinned program; and the same panel without the closed programs.
\<close>

definition stalePanel :: DockPanel where
  "stalePanel = examplePanel
     [exampleItem ''files'' True [], exampleItem ''gedit'' False [],
      exampleItem ''konsole'' False [2], exampleItem ''vlc'' False []]"

definition cleanPanel :: DockPanel where
  "cleanPanel = examplePanel [exampleItem ''files'' True [], exampleItem ''konsole'' False [2]]"

text \<open>
  The entering animation of \<open>enteringDock\<close> has run its 20 ticks and the pointer
  leaves: the start and the end of the leaving animation are captured.
\<close>

definition leavingDock :: DockPanel where
  "leavingDock =
     (case do { q \<leftarrow> ticks 20 enteringDock; leaveEvent q } of
        Some q \<Rightarrow> q
      | None \<Rightarrow> examplePanel [])"

section \<open>Predicates of the claims\<close>

text \<open>Whether the leading edge of an item lies before the pointer (lines 1177-1178).\<close>

definition edgeBefore :: "DockPanel \<Rightarrow> int \<Rightarrow> int \<Rightarrow> DockItem \<Rightarrow> bool" where
  "edgeBefore p x y it =
     ((orientation p = Horizontal \<and> it_left it < x) \<or>
      (orientation p = Vertical \<and> it_top it < y))"


text \<open>
  The spec's interpolation property, section 4.4: after the step \<open>k\<close> every
  interpolated value of \<open>q\<close> (the background width and height, each item's size and
  position) is \<open>start + (end - start) \<times> k / totalSteps\<close>, the start and end values
  being those captured in \<open>p\<close>.
\<close>

definition itemInterpolated :: "int \<Rightarrow> DockItem \<Rightarrow> DockItem \<Rightarrow> bool" where
  "itemInterpolated k a b =
     (it_size b = it_startSize a + ((it_endSize a - it_startSize a) * k) sdiv it_numSteps a \<and>
      it_left b = it_startLeft a + ((it_endLeft a - it_startLeft a) * k) sdiv it_numSteps a \<and>
      it_top b = it_startTop a + ((it_endTop a - it_startTop a) * k) sdiv it_numSteps a)"

definition interpolatedAt :: "DockPanel \<Rightarrow> int \<Rightarrow> DockPanel \<Rightarrow> bool" where
  "interpolatedAt p k q =
     (backgroundWidth q = startBackgroundWidth p
        + ((endBackgroundWidth p - startBackgroundWidth p) * k) sdiv numAnimationSteps p \<and>
      backgroundHeight q = startBackgroundHeight p
        + ((endBackgroundHeight p - startBackgroundHeight p) * k) sdiv numAnimationSteps p \<and>
      list_all2 (itemInterpolated k) (items p) (items q))"

text \<open>Every interpolated value of \<open>q\<close> equals its end value captured in \<open>p\<close>.\<close>

definition itemAtEnd :: "DockItem \<Rightarrow> DockItem \<Rightarrow> bool" where
  "itemAtEnd a b =
     (it_size b = it_endSize a \<and> it_left b = it_endLeft a \<and> it_top b = it_endTop a)"

definition atEnd :: "DockPanel \<Rightarrow> DockPanel \<Rightarrow> bool" where
  "atEnd p q =
     (backgroundWidth q = endBackgroundWidth p \<and>
      backgroundHeight q = endBackgroundHeight p \<and>
      list_all2 itemAtEnd (items p) (items q))"

text \<open>
  The animation captured in \<open>p\<close> is still the one running in \<open>q\<close>, at the step \<open>k\<close>:
  the start and end values and the number of steps are those of \<open>p\<close>.
\<close>

definition itemRunning :: "int \<Rightarrow> DockItem \<Rightarrow> DockItem \<Rightarrow> bool" where
  "itemRunning k a b =
     (it_currentStep b = k \<and> it_numSteps b = it_numSteps a \<and>
      it_startSize b = it_startSize a \<and> it_endSize b = it_endSize a \<and>
      it_startLeft b = it_startLeft a \<and> it_endLeft b = it_endLeft a \<and>
      it_startTop b = it_startTop a \<and> it_endTop b = it_endTop a)"

definition running :: "DockPanel \<Rightarrow> int \<Rightarrow> DockPanel \<Rightarrow> bool" where
  "running p k q =
     (currentAnimationStep q = k \<and> numAnimationSteps q = numAnimationSteps p \<and>
      startBackgroundWidth q = startBackgroundWidth p \<and>
      endBackgroundWidth q = endBackgroundWidth p \<and>
      startBackgroundHeight q = startBackgroundHeight p \<and>
      endBackgroundHeight q = endBackgroundHeight p \<and>
      isLeaving q = isLeaving p \<and> animationTimer q = animationTimer p \<and>
      list_all2 (itemRunning k) (items p) (items q))"

text \<open>
  The range in which the interpolation of \<open>n\<close> steps from \<open>s\<close> to \<open>e\<close> forms only
  32-bit values: the two ends, their difference and its product with the number of
  steps.
\<close>

definition interpolable :: "int \<Rightarrow> int \<Rightarrow> int \<Rightarrow> bool" where
  "interpolable n s e = (int32 s \<and> int32 e \<and> int32 (e - s) \<and> int32 ((e - s) * n))"

definition animationInRange :: "DockPanel \<Rightarrow> bool" where
  "animationInRange p =
     (int32 (numAnimationSteps p) \<and>
      interpolable (numAnimationSteps p) (startBackgroundWidth p) (endBackgroundWidth p) \<and>
      interpolable (numAnimationSteps p) (startBackgroundHeight p) (endBackgroundHeight p) \<and>
      list_all (\<lambda>it.
          interpolable (numAnimationSteps p) (it_startSize it) (it_endSize it) \<and>
          interpolable (numAnimationSteps p) (it_startLeft it) (it_endLeft it) \<and>
          interpolable (numAnimationSteps p) (it_startTop it) (it_endTop it)) (items p))"

text \<open>
  The command a new program is ordered by in \<^verbatim>\<open>addTask\<close> (lines 731-732), and the
  contract of the collaborators under which a new program accepts the task it was
  created for: a command matches itself, and the registry answers a command with an
  application whose task command matches it.
\<close>

definition newCommand :: "Collaborators \<Rightarrow> TaskInfo \<Rightarrow> string" where
  "newCommand c task =
     (case findApplication c (command task) of
        Some a \<Rightarrow> app_taskCommand a
      | None \<Rightarrow> command task)"

definition consistent :: "Collaborators \<Rightarrow> bool" where
  "consistent c =
     ((\<forall>cmd. sameCommand c cmd cmd) \<and>
      (\<forall>cmd a. findApplication c cmd = Some a \<longrightarrow> sameCommand c (app_taskCommand a) cmd))"

text \<open>
  What makes a dock item the item it is, as opposed to where the layout has put it:
  its kind, label, commands, pinned flag and tasks.
\<close>

definition itemIdentity ::
  "DockItem \<Rightarrow> ItemKind \<times> string \<times> string \<times> string \<times> bool \<times> nat list" where
  "itemIdentity it =
     (it_kind it, it_label it, it_command it, it_taskCommand it, it_pinned it, it_tasks it)"

text \<open>
  The rest layout in closed form: the leading edge of the item \<open>i\<close> along the
  magnification axis is the half spacing plus the minimum sizes and spacings of the
  items before it.
\<close>

definition restPos :: "int \<Rightarrow> DockItem list \<Rightarrow> nat \<Rightarrow> int" where
  "restPos s xs i = s sdiv 2 + sum_list (map (\<lambda>it. it_minSize it + s) (take i xs))"

definition restItem :: "DockPanel \<Rightarrow> DockItem list \<Rightarrow> nat \<Rightarrow> DockItem" where
  "restItem p xs i =
     (if isHorizontal p then
        (xs ! i)\<lparr>it_size := minSize p, it_left := restPos (itemSpacing p) xs i,
                 it_top := itemSpacing p sdiv 2,
                 it_minCenter := restPos (itemSpacing p) xs i + it_minSize (xs ! i) sdiv 2\<rparr>
      else
        (xs ! i)\<lparr>it_size := minSize p, it_left := itemSpacing p sdiv 2,
                 it_top := restPos (itemSpacing p) xs i,
                 it_minCenter := restPos (itemSpacing p) xs i + it_minSize (xs ! i) sdiv 2\<rparr>)"

section \<open>Facts about the 32-bit operations\<close>

lemma add32_Some:
  "add32 a b = Some c \<longleftrightarrow> int32 (a + b) \<and> c = a + b"
  by (auto simp add: add32_def)

lemma sub32_Some:
  "sub32 a b = Some c \<longleftrightarrow> int32 (a - b) \<and> c = a - b"
  by (auto simp add: sub32_def)

lemma mul32_Some:
  "mul32 a b = Some c \<longleftrightarrow> int32 (a * b) \<and> c = a * b"
  by (auto simp add: mul32_def)

lemma div32_Some:
  "div32 a b = Some c \<longleftrightarrow> b \<noteq> 0 \<and> int32 (a sdiv b) \<and> c = a sdiv b"
  by (auto simp add: div32_def)

lemma abs32_Some:
  "abs32 a = Some c \<longleftrightarrow> int32 \<bar>a\<bar> \<and> c = \<bar>a\<bar>"
  by (auto simp add: abs32_def)

lemma add32_ok:
  "int32 (a + b) \<Longrightarrow> add32 a b = Some (a + b)"
  by (simp add: add32_def)

lemma sub32_ok:
  "int32 (a - b) \<Longrightarrow> sub32 a b = Some (a - b)"
  by (simp add: sub32_def)

lemma mul32_ok:
  "int32 (a * b) \<Longrightarrow> mul32 a b = Some (a * b)"
  by (simp add: mul32_def)

lemma div32_ok:
  "b \<noteq> 0 \<Longrightarrow> int32 (a sdiv b) \<Longrightarrow> div32 a b = Some (a sdiv b)"
  by (simp add: div32_def)

lemma int32_between:
  assumes "int32 a" and "int32 b" and "a \<le> v" and "v \<le> b"
  shows "int32 v"
  using assms by (simp add: int32_def)

lemma sdiv_nonneg_eq_div:
  fixes a b :: int
  assumes "0 \<le> a" and "0 < b"
  shows "a sdiv b = a div b"
  using assms by (simp add: signed_divide_int_def sgn_if)

lemma int32_nonneg:
  assumes "0 \<le> v" and "v \<le> b" and "int32 b"
  shows "int32 v"
  using assms by (simp add: int32_def)

lemma sdiv_two_int32:
  assumes "int32 a"
  shows "int32 (a sdiv 2)"
proof (cases "0 \<le> a")
  case True
  then have "a sdiv 2 = a div 2"
    by (simp add: sdiv_nonneg_eq_div)
  moreover have "0 \<le> a div 2" "a div 2 \<le> a"
    using True by simp_all
  ultimately show ?thesis
    using assms by (simp add: int32_def)
next
  case False
  then have "a sdiv 2 = - ((- a) div 2)"
    by (simp add: signed_divide_int_def sgn_if)
  moreover have "0 \<le> (- a) div 2" "(- a) div 2 \<le> - a"
    using False by simp_all
  ultimately show ?thesis
    using assms by (simp add: int32_def)
qed

lemma div32_two:
  "int32 a \<Longrightarrow> div32 a 2 = Some (a sdiv 2)"
  by (simp add: div32_def sdiv_two_int32)

lemmas ops32_Some = add32_Some sub32_Some mul32_Some div32_Some abs32_Some

section \<open>Properties of the parabolic size function\<close>

text \<open>
  The products of \<^verbatim>\<open>parabolic\<close> stay in range when the square of the maximum distance
  and its product with the size range do, and the two sizes are 32-bit values.
\<close>

lemma parabolic_div:
  assumes "0 < parabolicMaxX p" and "minSize p \<le> maxSize p"
    and "int32 (minSize p)" and "int32 (maxSize p)"
    and "int32 (parabolicMaxX p * parabolicMaxX p)"
    and "int32 (parabolicMaxX p * parabolicMaxX p * (maxSize p - minSize p))"
    and "0 \<le> x" and "x \<le> parabolicMaxX p"
  shows "parabolic p x = Some (maxSize p -
             (x * x * (maxSize p - minSize p)) div (parabolicMaxX p * parabolicMaxX p))"
    and "0 \<le> (x * x * (maxSize p - minSize p)) div (parabolicMaxX p * parabolicMaxX p)"
    and "(x * x * (maxSize p - minSize p)) div (parabolicMaxX p * parabolicMaxX p)
           \<le> maxSize p - minSize p"
proof -
  let ?M = "parabolicMaxX p" and ?R = "maxSize p - minSize p"
  let ?q = "(x * x * ?R) div (?M * ?M)"
  have R: "0 \<le> ?R"
    using assms(2) by simp
  have pos: "0 < ?M * ?M"
    using assms(1) by simp
  have xx: "0 \<le> x * x" "x * x \<le> ?M * ?M"
    using assms(7,8) by (simp_all add: mult_mono)
  have n: "0 \<le> x * x * ?R" "x * x * ?R \<le> ?M * ?M * ?R"
    using xx R by (simp_all add: mult_right_mono)
  have one: "1 \<le> ?M * ?M"
    using pos by simp
  have "1 * ?R \<le> ?M * ?M * ?R"
    using one R by (rule mult_right_mono)
  then have "?R \<le> ?M * ?M * ?R"
    by simp
  then have R32: "int32 ?R"
    using R assms(6) int32_nonneg by blast
  have xx32: "int32 (x * x)"
    by (rule int32_nonneg [OF xx assms(5)])
  have n32: "int32 (x * x * ?R)"
    by (rule int32_nonneg [OF n assms(6)])
  have sd: "(x * x * ?R) sdiv (?M * ?M) = ?q"
    using n(1) pos by (rule sdiv_nonneg_eq_div)
  show q0: "0 \<le> ?q"
    using n(1) pos by (simp add: pos_imp_zdiv_nonneg_iff)
  have "?q \<le> (?M * ?M * ?R) div (?M * ?M)"
    using n(2) pos by (rule zdiv_mono1)
  also have "\<dots> = ?R"
    using assms(1) by simp
  finally show qR: "?q \<le> ?R" .
  have q32: "int32 ?q"
    by (rule int32_nonneg [OF q0 qR R32])
  have r32: "int32 (maxSize p - ?q)"
    using q0 qR assms(3,4) by (simp add: int32_def)
  have dv: "div32 (x * x * ?R) (?M * ?M) = Some ?q"
    using assms(1) q32 sd by (simp add: div32_def)
  show "parabolic p x = Some (maxSize p - ?q)"
    using assms(8) xx32 R32 n32 assms(5) r32 dv
    by (simp add: parabolic_def mul32_ok sub32_ok)
qed

lemma parabolic_beyond:
  assumes "parabolicMaxX p < x"
  shows "parabolic p x = Some (minSize p)"
  using assms by (simp add: parabolic_def)

lemma parabolic_at_max:
  assumes "0 < parabolicMaxX p" and "minSize p \<le> maxSize p"
    and "int32 (minSize p)" and "int32 (maxSize p)"
    and "int32 (parabolicMaxX p * parabolicMaxX p)"
    and "int32 (parabolicMaxX p * parabolicMaxX p * (maxSize p - minSize p))"
  shows "parabolic p (parabolicMaxX p) = Some (minSize p)"
proof -
  have "parabolicMaxX p * parabolicMaxX p * (maxSize p - minSize p)
          div (parabolicMaxX p * parabolicMaxX p) = maxSize p - minSize p"
    using assms(1) by simp
  then show ?thesis
    using parabolic_div(1) [OF assms, of "parabolicMaxX p"] assms(1) by simp
qed

lemma parabolic_defined:
  assumes "0 < parabolicMaxX p" and "minSize p \<le> maxSize p"
    and "int32 (minSize p)" and "int32 (maxSize p)"
    and "int32 (parabolicMaxX p * parabolicMaxX p)"
    and "int32 (parabolicMaxX p * parabolicMaxX p * (maxSize p - minSize p))"
    and "0 \<le> x"
  shows "\<exists>s. parabolic p x = Some s \<and> minSize p \<le> s \<and> s \<le> maxSize p"
proof (cases "x \<le> parabolicMaxX p")
  case True
  show ?thesis
    using parabolic_div [OF assms True] assms(2) by auto
next
  case False
  then show ?thesis
    using assms(2) by (simp add: parabolic_def)
qed

lemma parabolic_antimono:
  assumes "0 < parabolicMaxX p" and "minSize p \<le> maxSize p"
    and "int32 (minSize p)" and "int32 (maxSize p)"
    and "int32 (parabolicMaxX p * parabolicMaxX p)"
    and "int32 (parabolicMaxX p * parabolicMaxX p * (maxSize p - minSize p))"
    and "0 \<le> d1" and "d1 \<le> d2"
    and "parabolic p d1 = Some s1" and "parabolic p d2 = Some s2"
  shows "s2 \<le> s1"
proof (cases "d2 \<le> parabolicMaxX p")
  case True
  let ?M = "parabolicMaxX p" and ?R = "maxSize p - minSize p"
  have le1: "d1 \<le> ?M"
    using True assms(8) by simp
  have d2: "0 \<le> d2"
    using assms(7,8) by simp
  have "d1 * d1 \<le> d2 * d2"
    using assms(7,8) by (simp add: mult_mono)
  then have "d1 * d1 * ?R \<le> d2 * d2 * ?R"
    using assms(2) by (simp add: mult_right_mono)
  moreover have "0 < ?M * ?M"
    using assms(1) by simp
  ultimately have "d1 * d1 * ?R div (?M * ?M) \<le> d2 * d2 * ?R div (?M * ?M)"
    by (rule zdiv_mono1)
  then show ?thesis
    using parabolic_div(1) [OF assms(1-7) le1] parabolic_div(1) [OF assms(1-6) d2 True]
      assms(9,10)
    by simp
next
  case False
  then have s2: "s2 = minSize p"
    using assms(10) by (simp add: parabolic_def)
  show ?thesis
    using parabolic_defined [OF assms(1-7)] assms(9) s2 by auto
qed

text \<open>
  Claim C1, as the code has it. For every distance \<open>d \<ge> 0\<close>, with
  \<open>maxSize \<ge> minSize\<close> and \<open>maxDistance > 0\<close>, and with 32-bit sizes whose range times
  the square of \<open>maxDistance\<close> is still a 32-bit value, the implementation returns the
  value of the reference definition: \<open>maxSize\<close> at distance 0, the parabola on
  \<open>0 \<le> d \<le> maxDistance\<close>, and \<open>minSize\<close> beyond \<open>maxDistance\<close>.
\<close>

theorem parabolic_meets_reference:
  assumes "0 \<le> d" and "minSize p \<le> maxSize p" and "0 < parabolicMaxX p"
    and "int32 (minSize p)" and "int32 (maxSize p)"
    and "int32 (parabolicMaxX p * parabolicMaxX p)"
    and "int32 (parabolicMaxX p * parabolicMaxX p * (maxSize p - minSize p))"
  shows "parabolic p d = Some (size_spec (maxSize p) (minSize p) (parabolicMaxX p) d)
    \<and> parabolic p 0 = Some (maxSize p)
    \<and> (d \<le> parabolicMaxX p \<longrightarrow> parabolic p d = Some (maxSize p -
          (d * d * (maxSize p - minSize p)) sdiv (parabolicMaxX p * parabolicMaxX p)))
    \<and> (parabolicMaxX p < d \<longrightarrow> parabolic p d = Some (minSize p))"
proof -
  note range = assms(3,2,4,5,6,7)
  have zero: "parabolic p 0 = Some (maxSize p)"
    using parabolic_div(1) [OF range, of 0] assms(3) by simp
  have inside: "parabolic p d = Some (maxSize p -
          (d * d * (maxSize p - minSize p)) sdiv (parabolicMaxX p * parabolicMaxX p))"
    if "d \<le> parabolicMaxX p"
  proof -
    have "0 \<le> d * d * (maxSize p - minSize p)"
      using assms(2) by simp
    moreover have "0 < parabolicMaxX p * parabolicMaxX p"
      using assms(3) by simp
    ultimately have "(d * d * (maxSize p - minSize p)) sdiv (parabolicMaxX p * parabolicMaxX p)
        = (d * d * (maxSize p - minSize p)) div (parabolicMaxX p * parabolicMaxX p)"
      by (rule sdiv_nonneg_eq_div)
    then show ?thesis
      using parabolic_div(1) [OF range assms(1) that] by simp
  qed
  have outside: "parabolic p d = Some (minSize p)" if "parabolicMaxX p < d"
    using that by (rule parabolic_beyond)
  have "parabolic p d = Some (size_spec (maxSize p) (minSize p) (parabolicMaxX p) d)"
  proof (cases "d \<le> parabolicMaxX p")
    case True
    then show ?thesis
      using inside zero assms(1) by (simp add: size_spec_def)
  next
    case False
    then show ?thesis
      using outside assms(1,3) by (simp add: size_spec_def)
  qed
  then show ?thesis
    using zero inside outside by blast
qed

theorem parabolic_meets_reference_witness:
  "(0::int) \<le> 60
    \<and> minSize (examplePanel []) \<le> maxSize (examplePanel [])
    \<and> 0 < parabolicMaxX (examplePanel [])
    \<and> int32 (minSize (examplePanel [])) \<and> int32 (maxSize (examplePanel []))
    \<and> int32 (parabolicMaxX (examplePanel []) * parabolicMaxX (examplePanel []))
    \<and> int32 (parabolicMaxX (examplePanel []) * parabolicMaxX (examplePanel [])
          * (maxSize (examplePanel []) - minSize (examplePanel [])))
    \<and> parabolic (examplePanel []) 60 = Some 56
    \<and> size_spec 64 32 120 60 = 56
    \<and> parabolic (examplePanel []) 0 = Some 64
    \<and> parabolic (examplePanel []) 121 = Some 32"
proof -
  have h: "minSize (examplePanel []) \<le> maxSize (examplePanel [])"
    "0 < parabolicMaxX (examplePanel [])"
    "int32 (minSize (examplePanel []))" "int32 (maxSize (examplePanel []))"
    "int32 (parabolicMaxX (examplePanel []) * parabolicMaxX (examplePanel []))"
    "int32 (parabolicMaxX (examplePanel []) * parabolicMaxX (examplePanel [])
          * (maxSize (examplePanel []) - minSize (examplePanel [])))"
    by (simp_all add: examplePanel_def int32_def)
  have s: "size_spec 64 32 120 60 = 56" "size_spec 64 32 120 121 = 32"
    by (simp_all add: size_spec_def signed_divide_int_def)
  have v: "maxSize (examplePanel []) = 64" "minSize (examplePanel []) = 32"
    "parabolicMaxX (examplePanel []) = 120"
    by (simp_all add: examplePanel_def)
  have a: "parabolic (examplePanel []) 60 = Some 56"
    using parabolic_meets_reference [OF _ h, of 60] s(1) unfolding v by simp
  have b: "parabolic (examplePanel []) 0 = Some 64"
    using parabolic_meets_reference [OF _ h, of 60] unfolding v by simp
  have c: "parabolic (examplePanel []) 121 = Some 32"
    using parabolic_meets_reference [OF _ h, of 121] s(2) unfolding v by simp
  show ?thesis
    using h s a b c by simp
qed

text \<open>
  Without the range condition the claim fails. With the sizes 32 and 64 and a maximum
  distance of 65536 the square of the distance is \<open>2^32\<close>, not an \<^verbatim>\<open>int\<close>, so the size
  at distance 0 is undefined and not \<open>maxSize\<close>; with a maximum distance of 8192 the
  product \<open>8192 * 8192 * 32 = 2^31\<close> overflows at the distance 8192.
\<close>

theorem parabolic_overflow:
  "minSize ((examplePanel [])\<lparr>parabolicMaxX := 65536\<rparr>)
      \<le> maxSize ((examplePanel [])\<lparr>parabolicMaxX := 65536\<rparr>)
    \<and> 0 < parabolicMaxX ((examplePanel [])\<lparr>parabolicMaxX := 65536\<rparr>)
    \<and> int32 (parabolicMaxX ((examplePanel [])\<lparr>parabolicMaxX := 65536\<rparr>))
    \<and> parabolic ((examplePanel [])\<lparr>parabolicMaxX := 65536\<rparr>) 0 = None
    \<and> parabolic ((examplePanel [])\<lparr>parabolicMaxX := 65536\<rparr>) 0
        \<noteq> Some (maxSize ((examplePanel [])\<lparr>parabolicMaxX := 65536\<rparr>))
    \<and> 0 < parabolicMaxX ((examplePanel [])\<lparr>parabolicMaxX := 8192\<rparr>)
    \<and> parabolic ((examplePanel [])\<lparr>parabolicMaxX := 8192\<rparr>) 8192 = None"
  by (simp add: parabolic_def examplePanel_def int32_def mul32_def sub32_def div32_def)

text \<open>
  Claim C2, as the code has it. With \<open>maxSize > minSize\<close>, \<open>maxDistance > 0\<close> and
  the same range condition, the size never grows with the distance: for all
  \<open>0 \<le> d1 < d2\<close> the size at \<open>d1\<close> is at least the size at \<open>d2\<close>; the size at
  distance 0 is \<open>maxSize\<close>, the size at \<open>maxDistance\<close> is exactly \<open>minSize\<close>, and so is
  the size at every larger distance. The integer division makes neighbouring distances
  share a size, so the decrease on \<open>[0, maxDistance]\<close> is not strict step by step, only
  from end to end.
\<close>

theorem parabolic_monotone:
  assumes "minSize p < maxSize p" and "0 < parabolicMaxX p"
    and "int32 (minSize p)" and "int32 (maxSize p)"
    and "int32 (parabolicMaxX p * parabolicMaxX p)"
    and "int32 (parabolicMaxX p * parabolicMaxX p * (maxSize p - minSize p))"
  shows "(\<forall>d1 d2. 0 \<le> d1 \<and> d1 < d2 \<longrightarrow>
            (\<exists>s1 s2. parabolic p d1 = Some s1 \<and> parabolic p d2 = Some s2 \<and> s2 \<le> s1))
    \<and> parabolic p 0 = Some (maxSize p)
    \<and> parabolic p (parabolicMaxX p) = Some (minSize p)
    \<and> (\<forall>d. parabolicMaxX p \<le> d \<longrightarrow> parabolic p d = Some (minSize p))
    \<and> (\<exists>s0 sM. parabolic p 0 = Some s0 \<and> parabolic p (parabolicMaxX p) = Some sM \<and> sM < s0)"
proof -
  have le: "minSize p \<le> maxSize p"
    using assms(1) by simp
  note range = assms(2) le assms(3-6)
  have mono: "\<forall>d1 d2. 0 \<le> d1 \<and> d1 < d2 \<longrightarrow>
            (\<exists>s1 s2. parabolic p d1 = Some s1 \<and> parabolic p d2 = Some s2 \<and> s2 \<le> s1)"
  proof (intro allI impI)
    fix d1 d2 :: int
    assume d: "0 \<le> d1 \<and> d1 < d2"
    obtain s1 where s1: "parabolic p d1 = Some s1"
      using parabolic_defined [OF range, of d1] d by blast
    obtain s2 where s2: "parabolic p d2 = Some s2"
      using parabolic_defined [OF range, of d2] d by auto
    have "s2 \<le> s1"
      using parabolic_antimono [OF range _ _ s1 s2] d by simp
    then show "\<exists>s1 s2. parabolic p d1 = Some s1 \<and> parabolic p d2 = Some s2 \<and> s2 \<le> s1"
      using s1 s2 by blast
  qed
  have zero: "parabolic p 0 = Some (maxSize p)"
    using parabolic_div(1) [OF range, of 0] assms(2) by simp
  have atmax: "parabolic p (parabolicMaxX p) = Some (minSize p)"
    by (rule parabolic_at_max [OF range])
  have beyond: "\<forall>d. parabolicMaxX p \<le> d \<longrightarrow> parabolic p d = Some (minSize p)"
  proof (intro allI impI)
    fix d assume "parabolicMaxX p \<le> d"
    then consider "d = parabolicMaxX p" | "parabolicMaxX p < d" by linarith
    then show "parabolic p d = Some (minSize p)"
      using atmax parabolic_beyond by cases simp_all
  qed
  show ?thesis
    using mono zero atmax beyond assms(1) by simp
qed

theorem parabolic_monotone_witness:
  "minSize (examplePanel []) < maxSize (examplePanel [])
    \<and> 0 < parabolicMaxX (examplePanel [])
    \<and> int32 (minSize (examplePanel [])) \<and> int32 (maxSize (examplePanel []))
    \<and> int32 (parabolicMaxX (examplePanel []) * parabolicMaxX (examplePanel []))
    \<and> int32 (parabolicMaxX (examplePanel []) * parabolicMaxX (examplePanel [])
          * (maxSize (examplePanel []) - minSize (examplePanel [])))
    \<and> parabolic (examplePanel []) 30 = Some 62
    \<and> parabolic (examplePanel []) 90 = Some 46
    \<and> parabolic (examplePanel []) 120 = Some 32
    \<and> parabolic (examplePanel []) 500 = Some 32"
proof -
  have h: "minSize (examplePanel []) < maxSize (examplePanel [])"
    "0 < parabolicMaxX (examplePanel [])"
    "int32 (minSize (examplePanel []))" "int32 (maxSize (examplePanel []))"
    "int32 (parabolicMaxX (examplePanel []) * parabolicMaxX (examplePanel []))"
    "int32 (parabolicMaxX (examplePanel []) * parabolicMaxX (examplePanel [])
          * (maxSize (examplePanel []) - minSize (examplePanel [])))"
    by (simp_all add: examplePanel_def int32_def)
  have "parabolic (examplePanel []) (parabolicMaxX (examplePanel []))
      = Some (minSize (examplePanel []))"
    using parabolic_monotone [OF h] by blast
  then have a: "parabolic (examplePanel []) 120 = Some 32"
    by (simp add: examplePanel_def)
  have b: "parabolic (examplePanel []) 30 = Some 62"
    "parabolic (examplePanel []) 90 = Some 46"
    "parabolic (examplePanel []) 500 = Some 32"
    by (simp_all add: parabolic_def examplePanel_def int32_def mul32_def sub32_def div32_def
        signed_divide_int_def)
  show ?thesis
    using h a b by simp
qed

text \<open>
  The claim's "strictly decreasing on \<open>[0, maxDistance]\<close>" fails: on the example panel
  (sizes 32 to 64, \<open>maxDistance = 120\<close>) the distances 0 and 1 both give 64.
\<close>

theorem parabolic_not_strict:
  "minSize (examplePanel []) < maxSize (examplePanel [])
    \<and> 0 < parabolicMaxX (examplePanel [])
    \<and> (0::int) < 1 \<and> 1 \<le> parabolicMaxX (examplePanel [])
    \<and> parabolic (examplePanel []) 0 = Some 64
    \<and> parabolic (examplePanel []) 1 = Some 64
    \<and> \<not> the (parabolic (examplePanel []) 1) < the (parabolic (examplePanel []) 0)"
  by (simp add: parabolic_def examplePanel_def int32_def mul32_def sub32_def div32_def
      signed_divide_int_def)

section \<open>Hit testing\<close>

lemma findActiveLoop_unfold:
  "findActiveLoop p x y i =
     (if i < length (items p) \<and> edgeBefore p x y (items p ! i)
      then findActiveLoop p x y (Suc i) else i)"
  by (subst findActiveLoop.simps) (simp add: edgeBefore_def)

lemma findActiveLoop_takeWhile:
  "i \<le> length (items p) \<Longrightarrow>
     findActiveLoop p x y i = i + length (takeWhile (edgeBefore p x y) (drop i (items p)))"
proof (induction p x y i rule: findActiveLoop.induct)
  case (1 p x y i)
  show ?case
  proof (cases "i < length (items p)")
    case False
    then have "findActiveLoop p x y i = i"
      by (subst findActiveLoop_unfold) simp
    then show ?thesis using False "1.prems" by simp
  next
    case True
    then have d: "drop i (items p) = items p ! i # drop (Suc i) (items p)"
      by (simp add: Cons_nth_drop_Suc)
    show ?thesis
    proof (cases "edgeBefore p x y (items p ! i)")
      case before: True
      have "findActiveLoop p x y i = findActiveLoop p x y (Suc i)"
        using True before by (subst findActiveLoop_unfold) simp
      also have "\<dots> = Suc i + length (takeWhile (edgeBefore p x y) (drop (Suc i) (items p)))"
      proof (rule "1.IH")
        show "i < length (items p) \<and>
          (orientation p = Horizontal \<and> it_left (items p ! i) < x \<or>
           orientation p = Vertical \<and> it_top (items p ! i) < y)"
          using True before by (simp add: edgeBefore_def)
        show "Suc i \<le> length (items p)"
          using True by simp
      qed
      finally show ?thesis using d before by simp
    next
      case False
      then have "findActiveLoop p x y i = i"
        by (subst findActiveLoop_unfold) simp
      then show ?thesis using d False by simp
    qed
  qed
qed

lemma findActiveItem_takeWhile:
  "findActiveItem p x y = int (length (takeWhile (edgeBefore p x y) (items p))) - 1"
  by (simp add: findActiveItem_def findActiveLoop_takeWhile)

lemma findActiveItem_range:
  "- 1 \<le> findActiveItem p x y \<and> findActiveItem p x y < itemCount p"
proof -
  have "length (takeWhile (edgeBefore p x y) (items p)) \<le> length (items p)"
    by (rule length_takeWhile_le)
  then show ?thesis
    by (simp add: findActiveItem_takeWhile itemCount_def)
qed

lemma findActiveItem_sentinel:
  "findActiveItem p x y = - 1 \<longleftrightarrow>
     (items p = [] \<or> \<not> edgeBefore p x y (hd (items p)))"
  by (cases "items p") (simp_all add: findActiveItem_takeWhile)

lemma findActiveItem_all_before:
  assumes "list_all (edgeBefore p x y) (items p)"
  shows "findActiveItem p x y = itemCount p - 1"
proof -
  have tw: "takeWhile (edgeBefore p x y) (items p) = items p"
    using assms by (simp add: list_all_iff)
  show ?thesis
    unfolding findActiveItem_takeWhile tw itemCount_def by simp
qed

lemma showTooltip_defined:
  "showTooltip x y p =
     Some (p\<lparr>tooltip := (if findActiveItem p x y < 0 then None
                          else Some (nat (findActiveItem p x y)))\<rparr>)"
  using findActiveItem_range [of p x y]
  by (simp add: showTooltip_def showTooltipAt_def Let_def)

text \<open>
  Claim C8, as the code has it. The hit test returns an index from \<open>-1\<close> to
  \<open>itemCount - 1\<close>. It returns the sentinel \<open>-1\<close> exactly when the collection is
  empty or the leading edge of the first item is not before the pointer, and then the
  tooltip request hides the tooltip. A pointer that lies beyond the leading edge of
  every item (so also one beyond the last item) maps to the last item, whose tooltip
  is shown.
\<close>

theorem findActiveItem_sentinel_or_item:
  "- 1 \<le> findActiveItem p x y \<and> findActiveItem p x y < itemCount p
    \<and> (findActiveItem p x y = - 1 \<longleftrightarrow>
         (items p = [] \<or> \<not> edgeBefore p x y (hd (items p))))
    \<and> (findActiveItem p x y = - 1 \<longrightarrow> showTooltip x y p = Some (p\<lparr>tooltip := None\<rparr>))
    \<and> (items p \<noteq> [] \<and> list_all (edgeBefore p x y) (items p) \<longrightarrow>
         findActiveItem p x y = itemCount p - 1
         \<and> showTooltip x y p = Some (p\<lparr>tooltip := Some (length (items p) - 1)\<rparr>))"
proof (intro conjI impI)
  show "- 1 \<le> findActiveItem p x y" and "findActiveItem p x y < itemCount p"
    using findActiveItem_range [of p x y] by simp_all
  show "findActiveItem p x y = - 1 \<longleftrightarrow>
         (items p = [] \<or> \<not> edgeBefore p x y (hd (items p)))"
    by (rule findActiveItem_sentinel)
  show "showTooltip x y p = Some (p\<lparr>tooltip := None\<rparr>)" if "findActiveItem p x y = - 1"
    using that by (simp add: showTooltip_defined)
  show "findActiveItem p x y = itemCount p - 1"
    if "items p \<noteq> [] \<and> list_all (edgeBefore p x y) (items p)"
    using that findActiveItem_all_before by blast
  show "showTooltip x y p = Some (p\<lparr>tooltip := Some (length (items p) - 1)\<rparr>)"
    if "items p \<noteq> [] \<and> list_all (edgeBefore p x y) (items p)"
  proof -
    have "findActiveItem p x y = int (length (items p)) - 1"
      using findActiveItem_all_before that by (simp add: itemCount_def)
    moreover have "0 < length (items p)"
      using that by simp
    ultimately show ?thesis
      by (simp add: showTooltip_defined nat_diff_distrib')
  qed
qed

theorem findActiveItem_sentinel_or_item_witness:
  "findActiveItem (exampleDock 2) 8 10 = - 1
    \<and> \<not> edgeBefore (exampleDock 2) 8 10 (hd (items (exampleDock 2)))
    \<and> showTooltip 8 10 (exampleDock 2) = Some ((exampleDock 2)\<lparr>tooltip := None\<rparr>)
    \<and> items (exampleDock 2) \<noteq> []
    \<and> list_all (edgeBefore (exampleDock 2) 1000 10) (items (exampleDock 2))
    \<and> findActiveItem (exampleDock 2) 1000 10 = itemCount (exampleDock 2) - 1
    \<and> showTooltip 1000 10 (exampleDock 2)
        = Some ((exampleDock 2)\<lparr>tooltip := Some (length (items (exampleDock 2)) - 1)\<rparr>)"
proof -
  have a: "\<not> edgeBefore (exampleDock 2) 8 10 (hd (items (exampleDock 2)))"
    by code_simp
  have b: "items (exampleDock 2) \<noteq> []"
    "list_all (edgeBefore (exampleDock 2) 1000 10) (items (exampleDock 2))"
    by code_simp+
  note near = findActiveItem_sentinel_or_item [of "exampleDock 2" 8 10]
  note far = findActiveItem_sentinel_or_item [of "exampleDock 2" 1000 10]
  have s: "findActiveItem (exampleDock 2) 8 10 = - 1"
    using near a by blast
  have t: "showTooltip 8 10 (exampleDock 2) = Some ((exampleDock 2)\<lparr>tooltip := None\<rparr>)"
    using near s by blast
  have u: "findActiveItem (exampleDock 2) 1000 10 = itemCount (exampleDock 2) - 1"
    using far b by blast
  have v: "showTooltip 1000 10 (exampleDock 2)
        = Some ((exampleDock 2)\<lparr>tooltip := Some (length (items (exampleDock 2)) - 1)\<rparr>)"
    using far b by blast
  show ?thesis
    using a b s t u v by blast
qed

text \<open>
  The claim's "pointer beyond the last item" case fails. On the example panel with two
  items (leading edges 8 and 56, minimum size 32, panel length 96) the pointer at
  \<open>x = 1000\<close> is beyond the last item; the hit test returns the index 1 of the last
  item, not the sentinel, and the tooltip of that item is shown.
\<close>

theorem findActiveItem_beyond_last_item:
  "map it_left (items (exampleDock 2)) = [8, 56]
    \<and> map getWidth (items (exampleDock 2)) = [32, 32]
    \<and> minWidth (exampleDock 2) = 96
    \<and> itemCount (exampleDock 2) = 2
    \<and> findActiveItem (exampleDock 2) 1000 10 = 1
    \<and> map_option tooltip (showTooltip 1000 10 (exampleDock 2)) = Some (Some 1)"
  by code_simp

section \<open>Mouse presses\<close>

text \<open>
  Claim C10. While the animation-active flag is set a press is ignored: the panel is
  unchanged and no item receives the event. Otherwise the press goes to the item the
  hit test returns exactly when that index is within \<open>0 \<le> i < itemCount\<close>, and is
  ignored when it is not; the item access is never outside the vector.
\<close>

theorem mousePressEvent_guarded:
  "(isAnimationActive p \<longrightarrow> mousePressEvent x y p = Some (p, Ignored))
    \<and> (\<not> isAnimationActive p \<longrightarrow>
          mousePressEvent x y p =
            Some (p, if findActiveItem p x y < 0 \<or> itemCount p \<le> findActiveItem p x y
                     then Ignored else Dispatched (nat (findActiveItem p x y))))
    \<and> (\<forall>q i. mousePressEvent x y p = Some (q, Dispatched i) \<longrightarrow>
          q = p \<and> \<not> isAnimationActive p \<and> i < length (items p)
          \<and> int i = findActiveItem p x y)
    \<and> mousePressEvent x y p \<noteq> None"
  using findActiveItem_range [of p x y]
  by (auto simp add: mousePressEvent_def Let_def itemCount_def)

theorem mousePressEvent_guarded_witness:
  "\<not> isAnimationActive (exampleDock 2)
    \<and> findActiveItem (exampleDock 2) 60 10 = 1
    \<and> mousePressEvent 60 10 (exampleDock 2) = Some (exampleDock 2, Dispatched 1)
    \<and> findActiveItem (exampleDock 2) 5 10 = - 1
    \<and> mousePressEvent 5 10 (exampleDock 2) = Some (exampleDock 2, Ignored)
    \<and> isAnimationActive ((exampleDock 2)\<lparr>isAnimationActive := True\<rparr>)
    \<and> mousePressEvent 60 10 ((exampleDock 2)\<lparr>isAnimationActive := True\<rparr>)
         = Some ((exampleDock 2)\<lparr>isAnimationActive := True\<rparr>, Ignored)"
proof -
  have a: "\<not> isAnimationActive (exampleDock 2)"
    by code_simp
  have b: "findActiveItem (exampleDock 2) 60 10 = 1"
    by code_simp
  have c: "findActiveItem (exampleDock 2) 5 10 = - 1"
    by code_simp
  have d: "itemCount (exampleDock 2) = 2"
    by code_simp
  have "mousePressEvent 60 10 (exampleDock 2) =
      Some (exampleDock 2,
        if findActiveItem (exampleDock 2) 60 10 < 0
           \<or> itemCount (exampleDock 2) \<le> findActiveItem (exampleDock 2) 60 10
        then Ignored else Dispatched (nat (findActiveItem (exampleDock 2) 60 10)))"
    using mousePressEvent_guarded [of "exampleDock 2" 60 10] a by blast
  then have e: "mousePressEvent 60 10 (exampleDock 2) = Some (exampleDock 2, Dispatched 1)"
    unfolding b d by simp
  have "mousePressEvent 5 10 (exampleDock 2) =
      Some (exampleDock 2,
        if findActiveItem (exampleDock 2) 5 10 < 0
           \<or> itemCount (exampleDock 2) \<le> findActiveItem (exampleDock 2) 5 10
        then Ignored else Dispatched (nat (findActiveItem (exampleDock 2) 5 10)))"
    using mousePressEvent_guarded [of "exampleDock 2" 5 10] a by blast
  then have f: "mousePressEvent 5 10 (exampleDock 2) = Some (exampleDock 2, Ignored)"
    unfolding c d by simp
  have g: "isAnimationActive ((exampleDock 2)\<lparr>isAnimationActive := True\<rparr>)"
    by simp
  have h: "mousePressEvent 60 10 ((exampleDock 2)\<lparr>isAnimationActive := True\<rparr>)
         = Some ((exampleDock 2)\<lparr>isAnimationActive := True\<rparr>, Ignored)"
    using mousePressEvent_guarded [of "(exampleDock 2)\<lparr>isAnimationActive := True\<rparr>" 60 10] g
    by blast
  show ?thesis
    using a b c e f g h by blast
qed

section \<open>The zoom animation converges\<close>

lemma sdiv_mult_self:
  fixes a n :: int
  assumes "n \<noteq> 0"
  shows "(a * n) sdiv n = a"
proof -
  have "(a * n) sdiv n = sgn a * (sgn n * sgn n) * \<bar>a\<bar>"
    using assms by (simp add: signed_divide_int_def sgn_mult abs_mult)
  also have "sgn n * sgn n = 1"
    using assms by (simp add: sgn_if)
  finally show ?thesis
    by (simp add: sgn_mult_abs)
qed

lemma sdiv_minus_left:
  fixes a b :: int
  shows "(- a) sdiv b = - (a sdiv b)"
  by (simp add: signed_divide_int_def sgn_minus)

lemma scaled_nonneg:
  fixes d k n :: int
  assumes "0 \<le> d" and "0 \<le> k" and "k \<le> n" and "0 < n"
  shows "0 \<le> d * k" and "d * k \<le> d * n" and "0 \<le> (d * k) sdiv n" and "(d * k) sdiv n \<le> d"
proof -
  show a: "0 \<le> d * k"
    using assms(1,2) by simp
  show b: "d * k \<le> d * n"
    using assms(1,3) by (simp add: mult_left_mono)
  have s: "(d * k) sdiv n = (d * k) div n"
    using a assms(4) by (rule sdiv_nonneg_eq_div)
  show "0 \<le> (d * k) sdiv n"
    unfolding s using a assms(4) by (simp add: pos_imp_zdiv_nonneg_iff)
  have "(d * k) div n \<le> (d * n) div n"
    using b assms(4) by (rule zdiv_mono1)
  then show "(d * k) sdiv n \<le> d"
    unfolding s using assms(4) by simp
qed

lemma interpolate_Some:
  assumes "interpolate s e k n = Some v"
  shows "v = s + ((e - s) * k) sdiv n" and "n \<noteq> 0"
  using assms by (auto simp add: interpolate_def ops32_Some split: bind_splits)

lemma interpolate_defined:
  assumes "interpolable n s e" and "0 \<le> k" and "k \<le> n" and "0 < n"
  shows "interpolate s e k n = Some (s + ((e - s) * k) sdiv n)"
proof -
  let ?d = "e - s"
  have r: "int32 s" "int32 e" "int32 ?d" "int32 (?d * n)"
    using assms(1) by (simp_all add: interpolable_def)
  have m: "int32 (?d * k) \<and> int32 ((?d * k) sdiv n) \<and> int32 (s + (?d * k) sdiv n)"
  proof (cases "0 \<le> ?d")
    case True
    note b = scaled_nonneg [OF True assms(2,3,4)]
    have "int32 (?d * k)"
      by (rule int32_nonneg [OF b(1,2) r(4)])
    moreover have "int32 ((?d * k) sdiv n)"
      by (rule int32_nonneg [OF b(3,4) r(3)])
    moreover have "int32 (s + (?d * k) sdiv n)"
      using b(3,4) r(1,2) by (simp add: int32_def)
    ultimately show ?thesis by simp
  next
    case False
    then have neg: "0 \<le> s - e" by simp
    note b = scaled_nonneg [OF neg assms(2,3,4)]
    have m: "?d * k = - ((s - e) * k)" "?d * n = - ((s - e) * n)" "?d = - (s - e)"
      by (simp_all add: algebra_simps)
    have q: "(?d * k) sdiv n = - (((s - e) * k) sdiv n)"
      unfolding m(1) by (rule sdiv_minus_left)
    have "int32 (?d * k)"
      using b(1,2) r(4) unfolding m(1,2) by (simp add: int32_def)
    moreover have "int32 ((?d * k) sdiv n)"
      unfolding q using b(3,4) r(3) unfolding m(3) by (simp add: int32_def)
    moreover have "int32 (s + (?d * k) sdiv n)"
      unfolding q using b(3,4) r(1,2) by (simp add: int32_def)
    ultimately show ?thesis by simp
  qed
  show ?thesis
    using r(3) m assms(4)
    by (simp add: interpolate_def sub32_ok mul32_ok div32_ok add32_ok)
qed

lemma interpolate_end:
  assumes "interpolable n s e" and "0 < n"
  shows "interpolate s e n n = Some e"
  using interpolate_defined [OF assms(1) _ _ assms(2), of n] assms(2)
    sdiv_mult_self [of n "e - s"]
  by simp

lemma nextAnimationStep_running:
  assumes "itemRunning k a b" and "0 < it_numSteps a" and "int32 (it_numSteps a)"
    and "0 \<le> k" and "k < it_numSteps a"
    and "interpolable (it_numSteps a) (it_startSize a) (it_endSize a)"
    and "interpolable (it_numSteps a) (it_startLeft a) (it_endLeft a)"
    and "interpolable (it_numSteps a) (it_startTop a) (it_endTop a)"
  shows "\<exists>b'. nextAnimationStep b = Some b' \<and> itemRunning (k + 1) a b'
           \<and> itemInterpolated (k + 1) a b'"
proof -
  have k1: "add32 (it_currentStep b) 1 = Some (k + 1)"
    using assms(1,3,4,5) by (simp add: add32_def itemRunning_def int32_def)
  have i: "interpolate (it_startSize b) (it_endSize b) (k + 1) (it_numSteps b)
        = Some (it_startSize a + ((it_endSize a - it_startSize a) * (k + 1)) sdiv it_numSteps a)"
    "interpolate (it_startLeft b) (it_endLeft b) (k + 1) (it_numSteps b)
        = Some (it_startLeft a + ((it_endLeft a - it_startLeft a) * (k + 1)) sdiv it_numSteps a)"
    "interpolate (it_startTop b) (it_endTop b) (k + 1) (it_numSteps b)
        = Some (it_startTop a + ((it_endTop a - it_startTop a) * (k + 1)) sdiv it_numSteps a)"
    using assms(1) interpolate_defined [OF assms(6), of "k + 1"]
      interpolate_defined [OF assms(7), of "k + 1"]
      interpolate_defined [OF assms(8), of "k + 1"] assms(2,4,5)
    by (simp_all add: itemRunning_def)
  show ?thesis
    using assms(1) k1 i
    by (simp add: nextAnimationStep_def itemRunning_def itemInterpolated_def)
qed

lemma nextAnimationStep_all:
  assumes "list_all2 (itemRunning k) as bs"
    and "list_all (\<lambda>a. it_numSteps a = n
          \<and> interpolable n (it_startSize a) (it_endSize a)
          \<and> interpolable n (it_startLeft a) (it_endLeft a)
          \<and> interpolable n (it_startTop a) (it_endTop a)) as"
    and "0 < n" and "int32 n" and "0 \<le> k" and "k < n"
  shows "\<exists>bs'. map_option_list nextAnimationStep bs = Some bs'
           \<and> list_all2 (itemRunning (k + 1)) as bs'
           \<and> list_all2 (itemInterpolated (k + 1)) as bs'"
  using assms(1,2)
proof (induction rule: list_all2_induct)
  case Nil
  then show ?case by simp
next
  case (Cons a as b bs)
  have a: "it_numSteps a = n" "interpolable n (it_startSize a) (it_endSize a)"
    "interpolable n (it_startLeft a) (it_endLeft a)"
    "interpolable n (it_startTop a) (it_endTop a)"
    using Cons.prems by simp_all
  obtain b' where b': "nextAnimationStep b = Some b'" "itemRunning (k + 1) a b'"
      "itemInterpolated (k + 1) a b'"
    using nextAnimationStep_running [of k a b] Cons.hyps(1) a assms(3-6) by auto
  obtain bs' where bs': "map_option_list nextAnimationStep bs = Some bs'"
      "list_all2 (itemRunning (k + 1)) as bs'" "list_all2 (itemInterpolated (k + 1)) as bs'"
    using Cons.IH Cons.prems by auto
  show ?case
    using b' bs' by simp
qed

text \<open>The hypotheses of the convergence theorem, spelled out for the items.\<close>

lemma animation_items:
  assumes "list_all (\<lambda>it. it_currentStep it = 0 \<and> it_numSteps it = numAnimationSteps p) (items p)"
    and "animationInRange p"
  shows "list_all (\<lambda>a. it_numSteps a = numAnimationSteps p
          \<and> interpolable (numAnimationSteps p) (it_startSize a) (it_endSize a)
          \<and> interpolable (numAnimationSteps p) (it_startLeft a) (it_endLeft a)
          \<and> interpolable (numAnimationSteps p) (it_startTop a) (it_endTop a)) (items p)"
  using assms by (auto simp add: animationInRange_def list_all_iff)

lemma animationStep_running:
  assumes "running p k q" and "0 < numAnimationSteps p"
    and "list_all (\<lambda>it. it_currentStep it = 0 \<and> it_numSteps it = numAnimationSteps p) (items p)"
    and "animationInRange p" and "0 \<le> k" and "k < numAnimationSteps p"
  shows "\<exists>r. animationStep q = Some r \<and> running p (k + 1) r \<and> interpolatedAt p (k + 1) r
           \<and> r = q\<lparr>items := items r, currentAnimationStep := k + 1,
                    backgroundWidth := backgroundWidth r,
                    backgroundHeight := backgroundHeight r\<rparr>"
proof -
  let ?n = "numAnimationSteps p"
  have n32: "int32 ?n"
    using assms(4) by (simp add: animationInRange_def)
  obtain bs' where bs': "map_option_list nextAnimationStep (items q) = Some bs'"
      "list_all2 (itemRunning (k + 1)) (items p) bs'"
      "list_all2 (itemInterpolated (k + 1)) (items p) bs'"
    using nextAnimationStep_all [OF _ animation_items [OF assms(3,4)] assms(2) n32 assms(5,6),
        of "items q"] assms(1)
    by (auto simp add: running_def)
  have k1: "add32 (currentAnimationStep q) 1 = Some (k + 1)"
    using assms(1,5,6) n32 by (simp add: add32_def running_def int32_def)
  have w: "interpolate (startBackgroundWidth q) (endBackgroundWidth q) (k + 1)
             (numAnimationSteps q)
        = Some (startBackgroundWidth p
            + ((endBackgroundWidth p - startBackgroundWidth p) * (k + 1)) sdiv ?n)"
    using assms(1,2,4,5,6)
      interpolate_defined [of ?n "startBackgroundWidth p" "endBackgroundWidth p" "k + 1"]
    by (simp add: running_def animationInRange_def)
  have h: "interpolate (startBackgroundHeight q) (endBackgroundHeight q) (k + 1)
             (numAnimationSteps q)
        = Some (startBackgroundHeight p
            + ((endBackgroundHeight p - startBackgroundHeight p) * (k + 1)) sdiv ?n)"
    using assms(1,2,4,5,6)
      interpolate_defined [of ?n "startBackgroundHeight p" "endBackgroundHeight p" "k + 1"]
    by (simp add: running_def animationInRange_def)
  show ?thesis
    using assms(1) bs' k1 w h
    by (simp add: animationStep_def running_def interpolatedAt_def)
qed

lemma finishAnimation_running:
  assumes "currentAnimationStep r \<noteq> numAnimationSteps r"
  shows "finishAnimation r = Some r"
  using assms by (simp add: finishAnimation_def)

lemma running_start:
  assumes "currentAnimationStep p = 0"
    and "list_all (\<lambda>it. it_currentStep it = 0 \<and> it_numSteps it = numAnimationSteps p) (items p)"
  shows "running p 0 p"
proof -
  have "list_all2 (itemRunning 0) (items p) (items p)"
    using assms(2) by (simp add: list_all2_same list_all_iff itemRunning_def)
  then show ?thesis
    using assms(1) by (simp add: running_def)
qed

lemma ticks_running:
  assumes "currentAnimationStep p = 0" and "0 < numAnimationSteps p"
    and "list_all (\<lambda>it. it_currentStep it = 0 \<and> it_numSteps it = numAnimationSteps p) (items p)"
    and "animationInRange p"
    and "int k < numAnimationSteps p"
  shows "\<exists>q. ticks k p = Some q \<and> running p (int k) q
           \<and> (0 < k \<longrightarrow> interpolatedAt p (int k) q)"
  using assms(5)
proof (induction k)
  case 0
  then show ?case
    using running_start [OF assms(1,3)] by simp
next
  case (Suc k)
  obtain q where q: "ticks k p = Some q" "running p (int k) q"
    using Suc by auto
  obtain r where r: "animationStep q = Some r" "running p (int k + 1) r"
      "interpolatedAt p (int k + 1) r"
    using animationStep_running [OF q(2) assms(2,3,4), of] Suc.prems by auto
  have "currentAnimationStep r \<noteq> numAnimationSteps r"
    using r(2) Suc.prems by (simp add: running_def)
  then have "updateAnimation q = Some r"
    using r(1) by (simp add: updateAnimation_def finishAnimation_running)
  then show ?case
    using q(1) r(2,3) by (simp add: add.commute)
qed

lemma interpolatedAt_last:
  assumes "interpolatedAt p (numAnimationSteps p) r" and "numAnimationSteps p \<noteq> 0"
    and "list_all (\<lambda>it. it_numSteps it = numAnimationSteps p) (items p)"
  shows "atEnd p r"
proof -
  have "list_all2 (itemInterpolated (numAnimationSteps p)) (items p) (items r)"
    using assms(1) by (simp add: interpolatedAt_def)
  then have "list_all2 itemAtEnd (items p) (items r)"
    using assms(3)
  proof (induction rule: list_all2_induct)
    case Nil
    then show ?case by simp
  next
    case (Cons a as b bs)
    have "it_numSteps a = numAnimationSteps p"
      using Cons.prems by simp
    then have "itemAtEnd a b"
      using Cons.hyps(1) assms(2)
      by (simp add: itemInterpolated_def itemAtEnd_def sdiv_mult_self)
    then show ?case
      using Cons by simp
  qed
  then show ?thesis
    using assms(1,2) by (simp add: interpolatedAt_def atEnd_def sdiv_mult_self)
qed

lemma last_tick:
  assumes "currentAnimationStep p = 0" and "0 < numAnimationSteps p"
    and "list_all (\<lambda>it. it_currentStep it = 0 \<and> it_numSteps it = numAnimationSteps p) (items p)"
    and "animationInRange p"
  shows "\<exists>q r. ticks (nat (numAnimationSteps p) - 1) p = Some q \<and> animationStep q = Some r
           \<and> running p (numAnimationSteps p) r
           \<and> interpolatedAt p (numAnimationSteps p) r \<and> atEnd p r"
proof -
  let ?k = "nat (numAnimationSteps p) - 1"
  have k: "int ?k = numAnimationSteps p - 1"
    using assms(2) by simp
  have nz: "numAnimationSteps p \<noteq> 0"
    "list_all (\<lambda>it. it_numSteps it = numAnimationSteps p) (items p)"
    using assms(2,3) by (auto simp add: list_all_iff)
  obtain q where q: "ticks ?k p = Some q" "running p (int ?k) q"
    using ticks_running [OF assms, of ?k] k by auto
  obtain r where r: "animationStep q = Some r" "running p (int ?k + 1) r"
      "interpolatedAt p (int ?k + 1) r"
    using animationStep_running [OF q(2) assms(2,3,4)] k by auto
  have e: "int ?k + 1 = numAnimationSteps p"
    using k by simp
  have "atEnd p r"
    using interpolatedAt_last [OF _ nz] r(3) e by simp
  then show ?thesis
    using q(1) r e by metis
qed

lemma ticks_last:
  assumes "0 < numAnimationSteps p" and "ticks (nat (numAnimationSteps p) - 1) p = Some q"
  shows "ticks (nat (numAnimationSteps p)) p = updateAnimation q"
proof -
  have "Suc (nat (numAnimationSteps p) - 1) = nat (numAnimationSteps p)"
    using assms(1) by simp
  then show ?thesis
    using assms(2) by (metis bind.bind_lunit ticks.simps(2))
qed

text \<open>
  Claim C5 (animation convergence), as the code has it.  An animation that starts at
  step 0 with \<open>N = numAnimationSteps > 0\<close> steps, every item at step 0 of \<open>N\<close>, and
  whose start and end values are in the range where the interpolation stays 32-bit:

  \<^item> after every tick \<open>k\<close> with \<open>0 < k < N\<close> the size and the position of each item and
    the two background extents are the integer-truncating interpolation
    \<open>start + (end - start) * k / N\<close>;
  \<^item> the interpolation of tick \<open>N\<close> gives the end values exactly and no later tick
    interpolates: an entering animation rests on the end values with its timer
    stopped;
  \<^item> a leaving animation then lays the dock out at rest within the same tick, so the
    state that tick \<open>N\<close> leaves is the rest layout and not the end values.
\<close>

theorem animation_converges:
  assumes "currentAnimationStep p = 0" and "0 < numAnimationSteps p"
    and "list_all (\<lambda>it. it_currentStep it = 0 \<and> it_numSteps it = numAnimationSteps p) (items p)"
    and "animationInRange p"
  shows "(\<forall>k. 0 < k \<and> int k < numAnimationSteps p
           \<longrightarrow> (\<exists>q. ticks k p = Some q \<and> interpolatedAt p (int k) q
                    \<and> currentAnimationStep q = int k \<and> animationTimer q = animationTimer p))
    \<and> (\<exists>q r. ticks (nat (numAnimationSteps p) - 1) p = Some q \<and> animationStep q = Some r
           \<and> interpolatedAt p (numAnimationSteps p) r \<and> atEnd p r
           \<and> (\<not> isLeaving p \<longrightarrow>
                 (\<exists>r'. ticks (nat (numAnimationSteps p)) p = Some r' \<and> atEnd p r'
                    \<and> animationTimer r' = None \<and> \<not> isAnimationActive r'))
           \<and> (isLeaving p \<longrightarrow>
                 ticks (nat (numAnimationSteps p)) p
                   = updateLayout (r\<lparr>animationTimer := None, isAnimationActive := False,
                                      isLeaving := False\<rparr>)))"
proof -
  have before: "\<forall>k. 0 < k \<and> int k < numAnimationSteps p
           \<longrightarrow> (\<exists>q. ticks k p = Some q \<and> interpolatedAt p (int k) q
                    \<and> currentAnimationStep q = int k \<and> animationTimer q = animationTimer p)"
  proof (intro allI impI)
    fix k :: nat
    assume k: "0 < k \<and> int k < numAnimationSteps p"
    then obtain q where "ticks k p = Some q" "running p (int k) q" "interpolatedAt p (int k) q"
      using ticks_running [OF assms, of k] by auto
    then show "\<exists>q. ticks k p = Some q \<and> interpolatedAt p (int k) q
                    \<and> currentAnimationStep q = int k \<and> animationTimer q = animationTimer p"
      by (auto simp add: running_def)
  qed
  obtain q r where qr: "ticks (nat (numAnimationSteps p) - 1) p = Some q"
      "animationStep q = Some r" "running p (numAnimationSteps p) r"
      "interpolatedAt p (numAnimationSteps p) r" "atEnd p r"
    using last_tick [OF assms] by auto
  have t: "ticks (nat (numAnimationSteps p)) p = updateAnimation q"
    using ticks_last [OF assms(2) qr(1)] .
  have fin: "currentAnimationStep r = numAnimationSteps r" "isLeaving r = isLeaving p"
    using qr(3) by (simp_all add: running_def)
  let ?r1 = "r\<lparr>animationTimer := None, isAnimationActive := False\<rparr>"
  have enter: "\<exists>r'. ticks (nat (numAnimationSteps p)) p = Some r' \<and> atEnd p r'
                    \<and> animationTimer r' = None \<and> \<not> isAnimationActive r'"
    if "\<not> isLeaving p"
  proof -
    obtain r' where r': "showTooltip (mouseX ?r1) (mouseY ?r1) ?r1 = Some r'"
        "items r' = items ?r1" "backgroundWidth r' = backgroundWidth ?r1"
        "backgroundHeight r' = backgroundHeight ?r1"
        "animationTimer r' = animationTimer ?r1" "isAnimationActive r' = isAnimationActive ?r1"
      using showTooltip_defined [of "mouseX ?r1" "mouseY ?r1" ?r1] by auto
    have "updateAnimation q = Some r'"
      using qr(2) fin that r'(1) by (simp add: updateAnimation_def finishAnimation_def)
    moreover have "atEnd p r'"
      using qr(5) r'(2,3,4) by (simp add: atEnd_def)
    ultimately show ?thesis
      using t r'(5,6) by simp
  qed
  have leave: "ticks (nat (numAnimationSteps p)) p
                   = updateLayout (r\<lparr>animationTimer := None, isAnimationActive := False,
                                      isLeaving := False\<rparr>)"
    if "isLeaving p"
    using t qr(2) fin that by (simp add: updateAnimation_def finishAnimation_def)
  have "\<exists>q r. ticks (nat (numAnimationSteps p) - 1) p = Some q \<and> animationStep q = Some r
           \<and> interpolatedAt p (numAnimationSteps p) r \<and> atEnd p r
           \<and> (\<not> isLeaving p \<longrightarrow>
                 (\<exists>r'. ticks (nat (numAnimationSteps p)) p = Some r' \<and> atEnd p r'
                    \<and> animationTimer r' = None \<and> \<not> isAnimationActive r'))
           \<and> (isLeaving p \<longrightarrow>
                 ticks (nat (numAnimationSteps p)) p
                   = updateLayout (r\<lparr>animationTimer := None, isAnimationActive := False,
                                      isLeaving := False\<rparr>))"
    using qr(1,2,4,5) enter leave by blast
  with before show ?thesis
    by (rule conjI)
qed

theorem animation_converges_witness:
  "currentAnimationStep enteringDock = 0
    \<and> 0 < numAnimationSteps enteringDock
    \<and> list_all (\<lambda>it. it_currentStep it = 0 \<and> it_numSteps it = numAnimationSteps enteringDock)
         (items enteringDock)
    \<and> animationInRange enteringDock
    \<and> \<not> isLeaving enteringDock
    \<and> (\<exists>q. ticks 7 enteringDock = Some q \<and> interpolatedAt enteringDock 7 q
          \<and> currentAnimationStep q = 7 \<and> animationTimer q = animationTimer enteringDock)
    \<and> (\<exists>r. ticks (nat (numAnimationSteps enteringDock)) enteringDock = Some r
          \<and> atEnd enteringDock r \<and> animationTimer r = None \<and> \<not> isAnimationActive r)
    \<and> numAnimationSteps enteringDock = 20
    \<and> startBackgroundWidth enteringDock = 144 \<and> endBackgroundWidth enteringDock = 230
    \<and> map it_startLeft (items enteringDock) = [51, 99, 147]
    \<and> map it_endLeft (items enteringDock) = [8, 86, 166]
    \<and> map_option backgroundWidth (ticks 7 enteringDock) = Some 174
    \<and> map_option backgroundWidth (ticks 20 enteringDock) = Some 230
    \<and> map_option (\<lambda>r. map it_left (items r)) (ticks 20 enteringDock) = Some [8, 86, 166]"
proof -
  have a: "currentAnimationStep enteringDock = 0"
    by code_simp
  have b: "0 < numAnimationSteps enteringDock"
    by code_simp
  have c: "list_all (\<lambda>it. it_currentStep it = 0 \<and> it_numSteps it = numAnimationSteps enteringDock)
         (items enteringDock)"
    by code_simp
  have r: "animationInRange enteringDock"
    by code_simp
  have d: "\<not> isLeaving enteringDock"
    by code_simp
  have n: "(0::nat) < 7 \<and> int 7 < numAnimationSteps enteringDock"
    by code_simp
  have "\<exists>q. ticks 7 enteringDock = Some q \<and> interpolatedAt enteringDock (int 7) q
          \<and> currentAnimationStep q = int 7 \<and> animationTimer q = animationTimer enteringDock"
    using animation_converges [OF a b c r] n by blast
  then have k: "\<exists>q. ticks 7 enteringDock = Some q \<and> interpolatedAt enteringDock 7 q
          \<and> currentAnimationStep q = 7 \<and> animationTimer q = animationTimer enteringDock"
    by simp
  have e: "\<exists>r. ticks (nat (numAnimationSteps enteringDock)) enteringDock = Some r
          \<and> atEnd enteringDock r \<and> animationTimer r = None \<and> \<not> isAnimationActive r"
    using animation_converges [OF a b c r] d by blast
  have f: "numAnimationSteps enteringDock = 20"
    "startBackgroundWidth enteringDock = 144 \<and> endBackgroundWidth enteringDock = 230"
    "map it_startLeft (items enteringDock) = [51, 99, 147]"
    "map it_endLeft (items enteringDock) = [8, 86, 166]"
    by code_simp+
  have g: "map_option backgroundWidth (ticks 7 enteringDock) = Some 174"
    "map_option backgroundWidth (ticks 20 enteringDock) = Some 230"
    "map_option (\<lambda>r. map it_left (items r)) (ticks 20 enteringDock) = Some [8, 86, 166]"
    by code_simp+
  show ?thesis
    using a b c r d k e f g by blast
qed

text \<open>
  Counterexample to C5 as stated.  The leaving animation of \<open>leavingDock\<close> meets every
  hypothesis, and its end values are sizes 32 at lefts 51, 99, 147 and top 40 on a
  background of width 144; after the 20 ticks of the animation the items are at lefts
  8, 56, 104 and top 8, the rest layout, so the state is not the end values.  And
  outside the 32-bit range the interpolation has no value: from 0 to 200000000 in 20
  steps, the product of the last step overflows.
\<close>

theorem leaving_animation_ends_at_rest:
  "currentAnimationStep leavingDock = 0
    \<and> numAnimationSteps leavingDock = 20
    \<and> list_all (\<lambda>it. it_currentStep it = 0 \<and> it_numSteps it = numAnimationSteps leavingDock)
         (items leavingDock)
    \<and> animationInRange leavingDock
    \<and> isLeaving leavingDock
    \<and> map (\<lambda>it. (it_endSize it, it_endLeft it, it_endTop it)) (items leavingDock)
        = [(32, 51, 40), (32, 99, 40), (32, 147, 40)]
    \<and> map_option (\<lambda>r. map (\<lambda>it. (it_size it, it_left it, it_top it)) (items r))
        (ticks 20 leavingDock) = Some [(32, 8, 8), (32, 56, 8), (32, 104, 8)]
    \<and> map_option (atEnd leavingDock) (ticks 20 leavingDock) = Some False
    \<and> interpolate 0 200000000 20 20 = None"
  by code_simp


end
